theory Spec2Isabelle
  imports Main "HOL-Library.AList" "HOL-Library.Char_ord" "HOL-Library.List_Lexorder"
begin

section \<open>Data model\<close>

text \<open>
  Go strings and byte slices are both sequences of bytes; a byte is a \<^typ>\<open>char\<close>
  and both are modelled as \<^typ>\<open>string\<close>, so that the conversions
  \<^verbatim>\<open>[]byte(s)\<close> and \<^verbatim>\<open>string(b)\<close> are the identity.
\<close>

record Recipient =
  Arg :: string
  Enc :: string

record Metadata =
  Recipients :: "Recipient list"

text \<open>
  The dynamic values held by \<^verbatim>\<open>map[string]any\<close>: what the YAML decoder
  produces (nil, scalars, sequences, string-keyed and general maps) and the
  \<^verbatim>\<open>Metadata\<close> struct that \<^verbatim>\<open>rotateRecipientsLocked\<close> stores.
  A Go map is an association list read with \<^const>\<open>map_of\<close>.
\<close>

datatype any =
    VNil
  | VStr string
  | VInt int
  | VBool bool
  | VSeq "any list"
  | VStrMap "(string \<times> any) list"
  | VAnyMap "(any \<times> any) list"
  | VMeta Metadata

text \<open>
  Errors: the package-level sentinels, \<^verbatim>\<open>errors.New\<close>, \<^verbatim>\<open>fmt.Errorf\<close>
  with its format and arguments, and \<^verbatim>\<open>fmt.Errorf\<close> wrapping a cause with
  \<^verbatim>\<open>%w\<close>.
\<close>

datatype error =
    ErrLocked
  | ErrKeyNotFound
  | ErrAccessDenied
  | ErrMissingMetadata
  | ErrUserExists
  | ErrUserNotFound
  | ErrInvalidName
  | ErrInvalidPubKey
  | ErrNew string
  | ErrF string "any list"
  | ErrWrap string "any list" error

definition DefaultSecretFileName :: string where
  "DefaultSecretFileName = ''secrets.enc.yaml''"

definition MetadataKey :: string where
  "MetadataKey = ''_envseal''"

definition SecretsKey :: string where
  "SecretsKey = ''secrets''"

definition encPrefix :: string where
  "encPrefix = ''ENC[age,chacha20,''"

definition encSuffix :: string where
  "encSuffix = '']''"

text \<open>
  \<^verbatim>\<open>SecretFile\<close>. The field \<^verbatim>\<open>decryptedDEK\<close> is a byte slice: nil, or a
  reference to an array. The arrays live in \<open>heap\<close>, indexed by address, and
  \<open>brk\<close> is the next free address, so that overwriting the bytes of a slice is
  visible after the reference to it is dropped. The mutex is not modelled: every
  method runs alone.
\<close>

record SecretFile =
  RawData :: "(string \<times> any) list"
  decryptedDEK :: "nat option"
  path :: string
  heap :: "nat \<Rightarrow> string"
  brk :: nat

section \<open>Byte slices\<close>

definition zeroBytes :: "nat option \<Rightarrow> (nat \<Rightarrow> string) \<Rightarrow> (nat \<Rightarrow> string)" where
  "zeroBytes b h =
     (case b of
        None \<Rightarrow> h
      | Some a \<Rightarrow> h(a := fold (\<lambda>i buf. buf[i := CHR 0x00]) [0..<length (h a)] (h a)))"

definition cloneBytes :: "string option \<Rightarrow> SecretFile \<Rightarrow> nat option \<times> SecretFile" where
  "cloneBytes b sf =
     (case b of
        None \<Rightarrow> (None, sf)
      | Some bs \<Rightarrow>
          (Some (brk sf), sf\<lparr>heap := (heap sf)(brk sf := bs), brk := Suc (brk sf)\<rparr>))"

definition dekBytes :: "SecretFile \<Rightarrow> string" where
  "dekBytes sf = (case decryptedDEK sf of None \<Rightarrow> [] | Some a \<Rightarrow> heap sf a)"


section \<open>Package strings\<close>

text \<open>
  \<^verbatim>\<open>strings.TrimSpace\<close> removes the leading and trailing white space of
  \<^verbatim>\<open>unicode.IsSpace\<close>. On the bytes of a string these are the UTF-8 encodings
  of U+0009 to U+000D, U+0020, U+0085, U+00A0, U+1680, U+2000 to U+200A, U+2028,
  U+2029, U+202F, U+205F and U+3000.
\<close>

definition spaceRunes :: "string list" where
  "spaceRunes =
     [[CHR 0x09], [CHR 0x0A], [CHR 0x0B], [CHR 0x0C], [CHR 0x0D], [CHR 0x20],
      [CHR 0xC2, CHR 0x85], [CHR 0xC2, CHR 0xA0],
      [CHR 0xE1, CHR 0x9A, CHR 0x80],
      [CHR 0xE2, CHR 0x80, CHR 0x80], [CHR 0xE2, CHR 0x80, CHR 0x81],
      [CHR 0xE2, CHR 0x80, CHR 0x82], [CHR 0xE2, CHR 0x80, CHR 0x83],
      [CHR 0xE2, CHR 0x80, CHR 0x84], [CHR 0xE2, CHR 0x80, CHR 0x85],
      [CHR 0xE2, CHR 0x80, CHR 0x86], [CHR 0xE2, CHR 0x80, CHR 0x87],
      [CHR 0xE2, CHR 0x80, CHR 0x88], [CHR 0xE2, CHR 0x80, CHR 0x89],
      [CHR 0xE2, CHR 0x80, CHR 0x8A],
      [CHR 0xE2, CHR 0x80, CHR 0xA8], [CHR 0xE2, CHR 0x80, CHR 0xA9],
      [CHR 0xE2, CHR 0x80, CHR 0xAF], [CHR 0xE2, CHR 0x81, CHR 0x9F],
      [CHR 0xE3, CHR 0x80, CHR 0x80]]"

definition HasPrefix :: "string \<Rightarrow> string \<Rightarrow> bool" where
  "HasPrefix s pre = (length pre \<le> length s \<and> take (length pre) s = pre)"

definition HasSuffix :: "string \<Rightarrow> string \<Rightarrow> bool" where
  "HasSuffix s suf = (length suf \<le> length s \<and> drop (length s - length suf) s = suf)"

function stripRunes :: "string list \<Rightarrow> string \<Rightarrow> string" where
  "stripRunes runes s =
     (case find (\<lambda>r. r \<noteq> [] \<and> HasPrefix s r) runes of
        None \<Rightarrow> s
      | Some r \<Rightarrow> stripRunes runes (drop (length r) s))"
  by pat_completeness auto
termination
proof (relation "measure (\<lambda>(runes, s). length s)")
  show "wf (measure (\<lambda>(runes, s). length s))" by simp
next
  fix runes :: "string list" and s r :: string
  assume "find (\<lambda>r. r \<noteq> [] \<and> HasPrefix s r) runes = Some r"
  then have "r \<noteq> [] \<and> HasPrefix s r"
    by (auto simp: find_Some_iff)
  then have "0 < length r" and "length r \<le> length s"
    by (simp_all add: HasPrefix_def)
  then show "((runes, drop (length r) s), (runes, s)) \<in> measure (\<lambda>(runes, s). length s)"
    by (cases r) auto
qed

declare stripRunes.simps [simp del]

definition TrimSpace :: "string \<Rightarrow> string" where
  "TrimSpace s = rev (stripRunes (map rev spaceRunes) (rev (stripRunes spaceRunes s)))"

section \<open>External capabilities\<close>

text \<open>
  The libraries the code calls are not part of the repository; their operations
  are the fields of one record, and every definition below takes it as its first
  argument. Randomness is explicit: \<open>rnd\<close> is the byte stream that
  \<^verbatim>\<open>crypto/rand.Reader\<close> will deliver, threaded through every call that
  draws from it. \<open>'y\<close> is the type of serialized YAML.
\<close>

datatype X25519Identity = X25519Identity string

datatype X25519Recipient = X25519Recipient string

text \<open>
  The three ways \<^verbatim>\<open>age.Decrypt\<close> followed by \<^verbatim>\<open>io.Copy\<close> can end: the header
  cannot be opened with the identity, the payload stream fails while it is read,
  or the payload is delivered.
\<close>

datatype ageOutcome = DecryptFailed error | CopyFailed error | Payload string

datatype 'y fileRead = NotExist | ReadError error | Contents 'y

record 'y ext =
  ageDecrypt :: "string \<Rightarrow> X25519Identity \<Rightarrow> ageOutcome"
  parseX25519Recipient :: "string \<Rightarrow> error + X25519Recipient"
  ageEncrypt :: "X25519Recipient list \<Rightarrow> string \<Rightarrow> string \<Rightarrow> (error + string) \<times> string"
  aeadSeal :: "string \<Rightarrow> string \<Rightarrow> string \<Rightarrow> string"
  aeadOpen :: "string \<Rightarrow> string \<Rightarrow> string \<Rightarrow> string option"
  b64Encode :: "string \<Rightarrow> string"
  b64Decode :: "string \<Rightarrow> error + string"
  yamlMarshal :: "any \<Rightarrow> error + 'y"
  yamlUnmarshalMetadata :: "'y \<Rightarrow> error + Metadata"
  yamlUnmarshalMap :: "'y \<Rightarrow> error + (string \<times> any) list"
  sprintV :: "any \<Rightarrow> string"

section \<open>Package crypto\<close>

definition dekSize :: nat where
  "dekSize = 32"

definition NonceSize :: nat where
  "NonceSize = 12"

definition errDecryptDEKDenied :: string where
  "errDecryptDEKDenied = ''failed to decrypt DEK (denied or invalid identity)''"

definition errCiphertextShort :: string where
  "errCiphertextShort = ''ciphertext too short''"

definition errDecryptValue :: string where
  "errDecryptValue = ''failed to decrypt value (possible corruption or incorrect DEK)''"

definition validateDEK :: "string \<Rightarrow> error option" where
  "validateDEK dek =
     (if length dek \<noteq> dekSize
      then Some (ErrF ''invalid DEK size: got %d, want %d''
                  [VInt (int (length dek)), VInt (int dekSize)])
      else None)"

text \<open>
  \<^verbatim>\<open>io.ReadFull(rand.Reader, b)\<close> for a buffer of \<open>n\<close> bytes: the next \<open>n\<close>
  bytes of the stream, or an error when the stream ends first.
\<close>

definition fillRandom :: "nat \<Rightarrow> string \<Rightarrow> (error + string) \<times> string" where
  "fillRandom n rnd =
     (if length rnd < n then (Inl (ErrNew ''unexpected EOF''), [])
      else (Inr (take n rnd), drop n rnd))"

definition GenerateDEK :: "string \<Rightarrow> (error + string) \<times> string" where
  "GenerateDEK rnd =
     (case fillRandom dekSize rnd of
        (Inl e, r) \<Rightarrow> (Inl e, r)
      | (Inr key, r) \<Rightarrow> (Inr key, r))"

fun parseRecipientsLoop ::
  "'y ext \<Rightarrow> string list \<Rightarrow> X25519Recipient list \<Rightarrow> error + X25519Recipient list" where
  "parseRecipientsLoop P [] recipients = Inr recipients"
| "parseRecipientsLoop P (pubKey # rest) recipients =
     (case parseX25519Recipient P pubKey of
        Inl e \<Rightarrow> Inl (ErrWrap ''invalid public key: %w'' [] e)
      | Inr r \<Rightarrow> parseRecipientsLoop P rest (recipients @ [r]))"

definition parseRecipients :: "'y ext \<Rightarrow> string list \<Rightarrow> error + X25519Recipient list" where
  "parseRecipients P pubKeys =
     (if length pubKeys = 0 then Inl (ErrNew ''no recipients provided'')
      else parseRecipientsLoop P pubKeys [])"

definition EncryptDEK ::
  "'y ext \<Rightarrow> string \<Rightarrow> string list \<Rightarrow> string \<Rightarrow> (error + string) \<times> string" where
  "EncryptDEK P dek recipientPubKeys rnd =
     (case validateDEK dek of
        Some e \<Rightarrow> (Inl e, rnd)
      | None \<Rightarrow>
          (case parseRecipients P recipientPubKeys of
             Inl e \<Rightarrow> (Inl e, rnd)
           | Inr recipients \<Rightarrow> ageEncrypt P recipients dek rnd))"

definition DecryptDEK :: "'y ext \<Rightarrow> string \<Rightarrow> X25519Identity option \<Rightarrow> error + string" where
  "DecryptDEK P encryptedDEK identity =
     (if encryptedDEK = [] then Inl (ErrNew errDecryptDEKDenied)
      else
        (case identity of
           None \<Rightarrow> Inl (ErrNew errDecryptDEKDenied)
         | Some idt \<Rightarrow>
             (case ageDecrypt P encryptedDEK idt of
                DecryptFailed e \<Rightarrow> Inl (ErrNew errDecryptDEKDenied)
              | CopyFailed e \<Rightarrow> Inl e
              | Payload b \<Rightarrow>
                  (case validateDEK b of
                     Some e \<Rightarrow> Inl (ErrNew errDecryptDEKDenied)
                   | None \<Rightarrow> Inr b))))"

text \<open>\<^verbatim>\<open>chacha20poly1305.New\<close> accepts exactly the keys of 32 bytes.\<close>

definition chacha20poly1305_New :: "string \<Rightarrow> error + string" where
  "chacha20poly1305_New key =
     (if length key \<noteq> 32 then Inl (ErrNew ''chacha20poly1305: bad key length'')
      else Inr key)"

definition EncryptValue ::
  "'y ext \<Rightarrow> string \<Rightarrow> string \<Rightarrow> string \<Rightarrow> (error + string) \<times> string" where
  "EncryptValue P plaintext dek rnd =
     (case validateDEK dek of
        Some e \<Rightarrow> (Inl e, rnd)
      | None \<Rightarrow>
          (case chacha20poly1305_New dek of
             Inl e \<Rightarrow> (Inl e, rnd)
           | Inr aead \<Rightarrow>
               (case fillRandom NonceSize rnd of
                  (Inl e, r) \<Rightarrow> (Inl e, r)
                | (Inr nonce, r) \<Rightarrow>
                    (let out = nonce;
                         out = out @ aeadSeal P aead nonce plaintext
                     in (Inr (b64Encode P out), r)))))"

definition DecryptValue :: "'y ext \<Rightarrow> string \<Rightarrow> string \<Rightarrow> error + string" where
  "DecryptValue P encryptedBase64 dek =
     (case validateDEK dek of
        Some e \<Rightarrow> Inl e
      | None \<Rightarrow>
          (case b64Decode P encryptedBase64 of
             Inl e \<Rightarrow> Inl e
           | Inr data \<Rightarrow>
               (case chacha20poly1305_New dek of
                  Inl e \<Rightarrow> Inl e
                | Inr aead \<Rightarrow>
                    (let nonceSize = NonceSize in
                     if length data < nonceSize then Inl (ErrNew errCiphertextShort)
                     else
                       (let nonce = take nonceSize data;
                            ciphertext = drop nonceSize data
                        in case aeadOpen P aead nonce ciphertext of
                             None \<Rightarrow> Inl (ErrNew errDecryptValue)
                           | Some plaintext \<Rightarrow> Inr plaintext)))))"

section \<open>Sealed values in the document\<close>

definition wrapEncrypted :: "string \<Rightarrow> string" where
  "wrapEncrypted cipherText = encPrefix @ cipherText @ encSuffix"

text \<open>
  The slice expression \<^verbatim>\<open>value[len(encPrefix) : len(value)-len(encSuffix)]\<close>
  panics when its bounds cross; the model keeps that case as an error.
\<close>

definition decryptIfNeeded :: "'y ext \<Rightarrow> string \<Rightarrow> string \<Rightarrow> error + string" where
  "decryptIfNeeded P v dek =
     (if \<not> HasPrefix v encPrefix \<or> \<not> HasSuffix v encSuffix then Inr v
      else if length v - length encSuffix < length encPrefix
        then Inl (ErrNew ''slice bounds out of range'')
      else DecryptValue P (drop (length encPrefix) (take (length v - length encSuffix) v)) dek)"

section \<open>The secret file\<close>

text \<open>
  A \<^verbatim>\<open>range\<close> over a Go map visits every key once, in an order the language
  leaves open; the model visits the entries of the association list in stored
  order, each key once with the value \<^const>\<open>map_of\<close> gives it.
\<close>

definition mapEntries :: "('k \<times> 'v) list \<Rightarrow> ('k \<times> 'v) list" where
  "mapEntries m = AList.clearjunk m"

fun convertLegacy :: "(any \<times> any) list \<Rightarrow> (string \<times> any) list \<Rightarrow> error + (string \<times> any) list" where
  "convertLegacy [] converted = Inr converted"
| "convertLegacy ((k, v) # rest) converted =
     (case k of
        VStr ks \<Rightarrow> convertLegacy rest (AList.update ks v converted)
      | _ \<Rightarrow> Inl (ErrNew ''invalid secrets format: non-string key''))"

text \<open>
  \<^verbatim>\<open>ensureSecretsMap\<close> returns \<^verbatim>\<open>(map, error)\<close>: \<open>Inr None\<close> is the nil map with
  a nil error. The map it returns is the one stored under \<^verbatim>\<open>secrets\<close>, so a
  later write to it is a write to \<open>RawData\<close>.
\<close>

definition ensureSecretsMap ::
  "bool \<Rightarrow> SecretFile \<Rightarrow> (error + (string \<times> any) list option) \<times> SecretFile" where
  "ensureSecretsMap create sf =
     (let raw = map_of (RawData sf) SecretsKey in
      if raw = None \<or> raw = Some VNil then
        (if \<not> create then (Inr None, sf)
         else
           (let m = [] in
            (Inr (Some m), sf\<lparr>RawData := AList.update SecretsKey (VStrMap m) (RawData sf)\<rparr>)))
      else
        (case raw of
           Some (VStrMap m) \<Rightarrow> (Inr (Some m), sf)
         | Some (VAnyMap legacy) \<Rightarrow>
             (case convertLegacy (mapEntries legacy) [] of
                Inl e \<Rightarrow> (Inl e, sf)
              | Inr converted \<Rightarrow>
                  (Inr (Some converted),
                   sf\<lparr>RawData := AList.update SecretsKey (VStrMap converted) (RawData sf)\<rparr>))
         | _ \<Rightarrow> (Inl (ErrNew ''invalid secrets format''), sf)))"

definition NewSecretFile :: "string \<Rightarrow> SecretFile" where
  "NewSecretFile p =
     (let sf = \<lparr>RawData = [], decryptedDEK = None, path = p, heap = (\<lambda>_. []), brk = 0\<rparr>
      in snd (ensureSecretsMap True sf))"

text \<open>
  \<^verbatim>\<open>LoadSecretFile\<close> reads the file system, given as the function \<open>fs\<close> from a
  path to what \<^verbatim>\<open>os.ReadFile\<close> returns for it.
\<close>

definition LoadSecretFile ::
  "'y ext \<Rightarrow> (string \<Rightarrow> 'y fileRead) \<Rightarrow> string \<Rightarrow> error + SecretFile" where
  "LoadSecretFile P fs p =
     (case fs p of
        NotExist \<Rightarrow> Inr (NewSecretFile p)
      | ReadError e \<Rightarrow> Inl e
      | Contents data \<Rightarrow>
          (case yamlUnmarshalMap P data of
             Inl e \<Rightarrow> Inl e
           | Inr raw \<Rightarrow>
               (let sf = \<lparr>RawData = raw, decryptedDEK = None, path = p,
                          heap = (\<lambda>_. []), brk = 0\<rparr>
                in Inr (snd (ensureSecretsMap True sf)))))"

definition IsUnlocked :: "SecretFile \<Rightarrow> bool" where
  "IsUnlocked sf = (decryptedDEK sf \<noteq> None)"

definition Lock :: "SecretFile \<Rightarrow> SecretFile" where
  "Lock sf =
     (let sf1 = sf\<lparr>heap := zeroBytes (decryptedDEK sf) (heap sf)\<rparr>
      in sf1\<lparr>decryptedDEK := None\<rparr>)"

text \<open>The statements that replace the key: zero the old buffer, store a clone.\<close>

definition replaceDEK :: "string \<Rightarrow> SecretFile \<Rightarrow> SecretFile" where
  "replaceDEK dek sf =
     (let sf1 = sf\<lparr>heap := zeroBytes (decryptedDEK sf) (heap sf)\<rparr>;
          (a, sf2) = cloneBytes (Some dek) sf1
      in sf2\<lparr>decryptedDEK := a\<rparr>)"

fun unlockLoop ::
  "'y ext \<Rightarrow> X25519Identity \<Rightarrow> Recipient list \<Rightarrow> SecretFile \<Rightarrow> error option \<times> SecretFile" where
  "unlockLoop P idt [] sf = (Some ErrAccessDenied, sf)"
| "unlockLoop P idt (recipient # rest) sf =
     (case DecryptDEK P (Enc recipient) (Some idt) of
        Inr dek \<Rightarrow> (None, replaceDEK dek sf)
      | Inl err \<Rightarrow> unlockLoop P idt rest sf)"

definition Unlock ::
  "'y ext \<Rightarrow> X25519Identity option \<Rightarrow> SecretFile \<Rightarrow> error option \<times> SecretFile" where
  "Unlock P identity sf =
     (case identity of
        None \<Rightarrow> (Some (ErrNew ''identity is nil''), sf)
      | Some idt \<Rightarrow>
          (case map_of (RawData sf) MetadataKey of
             None \<Rightarrow> (Some ErrMissingMetadata, sf)
           | Some metaInterface \<Rightarrow>
               (case yamlMarshal P metaInterface of
                  Inl err \<Rightarrow> (Some (ErrWrap ''error encoding metadata: %w'' [] err), sf)
                | Inr metaBytes \<Rightarrow>
                    (case yamlUnmarshalMetadata P metaBytes of
                       Inl err \<Rightarrow> (Some (ErrWrap ''error parsing metadata: %w'' [] err), sf)
                     | Inr meta \<Rightarrow> unlockLoop P idt (Recipients meta) sf))))"

definition normalizeAndDedupe :: "string list \<Rightarrow> string list" where
  "normalizeAndDedupe keys = sort (remdups (filter (\<lambda>k. k \<noteq> []) (map TrimSpace keys)))"

fun wrapLoop ::
  "'y ext \<Rightarrow> string \<Rightarrow> string list \<Rightarrow> Recipient list \<Rightarrow> string
   \<Rightarrow> (error + Recipient list) \<times> string" where
  "wrapLoop P dek [] newRecipients rnd = (Inr newRecipients, rnd)"
| "wrapLoop P dek (pubKey # rest) newRecipients rnd =
     (case EncryptDEK P dek [pubKey] rnd of
        (Inl err, r) \<Rightarrow>
          (Inl (ErrWrap ''failed to encrypt for recipient %q: %w'' [VStr pubKey] err), r)
      | (Inr encDEK, r) \<Rightarrow>
          wrapLoop P dek rest (newRecipients @ [\<lparr>Arg = pubKey, Enc = encDEK\<rparr>]) r)"

definition rotateRecipientsLocked ::
  "'y ext \<Rightarrow> string list \<Rightarrow> SecretFile \<Rightarrow> string \<Rightarrow> error option \<times> SecretFile \<times> string" where
  "rotateRecipientsLocked P publicKeys sf rnd =
     (let publicKeys = normalizeAndDedupe publicKeys in
      if length publicKeys = 0 then (Some (ErrNew ''recipients list cannot be empty''), sf, rnd)
      else
        (case wrapLoop P (dekBytes sf) publicKeys [] rnd of
           (Inl err, r) \<Rightarrow> (Some err, sf, r)
         | (Inr newRecipients, r) \<Rightarrow>
             (None,
              sf\<lparr>RawData :=
                   AList.update MetadataKey (VMeta \<lparr>Recipients = newRecipients\<rparr>) (RawData sf)\<rparr>,
              r)))"

definition Init ::
  "'y ext \<Rightarrow> string list \<Rightarrow> SecretFile \<Rightarrow> string \<Rightarrow> error option \<times> SecretFile \<times> string" where
  "Init P initialRecipients sf rnd =
     (if length initialRecipients = 0
      then (Some (ErrNew ''initial recipients list cannot be empty''), sf, rnd)
      else
        (case GenerateDEK rnd of
           (Inl err, r) \<Rightarrow> (Some err, sf, r)
         | (Inr dek, r) \<Rightarrow>
             (let sf1 = replaceDEK dek sf;
                  sf2 = snd (ensureSecretsMap True sf1)
              in rotateRecipientsLocked P initialRecipients sf2 r)))"

definition RotateRecipients ::
  "'y ext \<Rightarrow> string list \<Rightarrow> SecretFile \<Rightarrow> string \<Rightarrow> error option \<times> SecretFile \<times> string" where
  "RotateRecipients P publicKeys sf rnd =
     (if decryptedDEK sf = None
      then (Some (ErrNew ''cannot rotate recipients without unlocking the file first''), sf, rnd)
      else rotateRecipientsLocked P publicKeys sf rnd)"

text \<open>
  \<^verbatim>\<open>SetSecret\<close> writes into the map that \<^verbatim>\<open>ensureSecretsMap(true)\<close> returns,
  which is the one stored under \<^verbatim>\<open>secrets\<close>. With \<^verbatim>\<open>create\<close> set that map is
  never nil; the model keeps the nil case as the error the write would be.
\<close>

definition SetSecret ::
  "'y ext \<Rightarrow> string \<Rightarrow> string \<Rightarrow> SecretFile \<Rightarrow> string \<Rightarrow> error option \<times> SecretFile \<times> string" where
  "SetSecret P key val sf rnd =
     (if decryptedDEK sf = None then (Some ErrLocked, sf, rnd)
      else
        (let key = TrimSpace key in
         if key = [] then (Some (ErrNew ''key cannot be empty''), sf, rnd)
         else if key = MetadataKey \<or> key = SecretsKey
           then (Some (ErrF ''cannot use reserved name %q'' [VStr key]), sf, rnd)
         else
           (case EncryptValue P val (dekBytes sf) rnd of
              (Inl err, r) \<Rightarrow> (Some err, sf, r)
            | (Inr encryptedVal, r) \<Rightarrow>
                (case ensureSecretsMap True sf of
                   (Inl err, sf1) \<Rightarrow> (Some err, sf1, r)
                 | (Inr None, sf1) \<Rightarrow> (Some (ErrNew ''assignment to entry in nil map''), sf1, r)
                 | (Inr (Some secrets), sf1) \<Rightarrow>
                     (let secrets = AList.update key (VStr (wrapEncrypted encryptedVal)) secrets;
                          sf2 = sf1\<lparr>RawData :=
                                  AList.update SecretsKey (VStrMap secrets) (RawData sf1)\<rparr>;
                          sf3 = sf2\<lparr>RawData := AList.delete key (RawData sf2)\<rparr>
                      in (None, sf3, r))))))"

definition decryptAnyLocked :: "'y ext \<Rightarrow> SecretFile \<Rightarrow> any \<Rightarrow> error + string" where
  "decryptAnyLocked P sf v =
     (case v of
        VStr s \<Rightarrow> decryptIfNeeded P s (dekBytes sf)
      | _ \<Rightarrow> Inl (ErrNew ''value is not a string''))"

text \<open>
  \<^verbatim>\<open>GetSecret\<close> and \<^verbatim>\<open>GetAllSecrets\<close> call \<^verbatim>\<open>ensureSecretsMap(false)\<close>, which
  can store a converted map, so both return the file as well.
\<close>

definition GetSecret :: "'y ext \<Rightarrow> string \<Rightarrow> SecretFile \<Rightarrow> (error + string) \<times> SecretFile" where
  "GetSecret P key sf =
     (if decryptedDEK sf = None then (Inl ErrLocked, sf)
      else
        (let key = TrimSpace key in
         if key = [] then (Inl (ErrNew ''key cannot be empty''), sf)
         else if key = MetadataKey \<or> key = SecretsKey
           then (Inl (ErrF ''reserved key %q cannot be retrieved as a secret'' [VStr key]), sf)
         else
           (case ensureSecretsMap False sf of
              (res, sf1) \<Rightarrow>
                (case (case res of Inr (Some secrets) \<Rightarrow> map_of secrets key | _ \<Rightarrow> None) of
                   Some v \<Rightarrow> (decryptAnyLocked P sf1 v, sf1)
                 | None \<Rightarrow>
                     (case map_of (RawData sf1) key of
                        Some v \<Rightarrow> (decryptAnyLocked P sf1 v, sf1)
                      | None \<Rightarrow> (Inl ErrKeyNotFound, sf1))))))"

definition secretsEntry ::
  "'y ext \<Rightarrow> SecretFile \<Rightarrow> string \<times> any \<Rightarrow> (string \<times> string) list \<Rightarrow> (string \<times> string) list" where
  "secretsEntry P sf kv out =
     (case kv of
        (k, v) \<Rightarrow>
          (case decryptAnyLocked P sf v of
             Inl err \<Rightarrow>
               (case v of
                  VStr s \<Rightarrow> AList.update k s out
                | _ \<Rightarrow> AList.update k (sprintV P v) out)
           | Inr val \<Rightarrow> AList.update k val out))"

definition legacyEntry ::
  "'y ext \<Rightarrow> SecretFile \<Rightarrow> string \<times> any \<Rightarrow> (string \<times> string) list \<Rightarrow> (string \<times> string) list" where
  "legacyEntry P sf kv out =
     (case kv of
        (k, v) \<Rightarrow>
          (if k = MetadataKey \<or> k = SecretsKey then out
           else if map_of out k \<noteq> None then out
           else
             (case v of
                VStr s \<Rightarrow>
                  (case decryptIfNeeded P s (dekBytes sf) of
                     Inl err \<Rightarrow> AList.update k s out
                   | Inr val \<Rightarrow> AList.update k val out)
              | _ \<Rightarrow> out)))"

definition GetAllSecrets ::
  "'y ext \<Rightarrow> SecretFile \<Rightarrow> (error + (string \<times> string) list) \<times> SecretFile" where
  "GetAllSecrets P sf =
     (if decryptedDEK sf = None then (Inl ErrLocked, sf)
      else
        (let out = [];
             (res, sf1) = ensureSecretsMap False sf;
             out = (case res of
                      Inr (Some secrets) \<Rightarrow> fold (secretsEntry P sf1) (mapEntries secrets) out
                    | _ \<Rightarrow> out);
             out = fold (legacyEntry P sf1) (mapEntries (RawData sf1)) out
         in (Inr out, sf1)))"

section \<open>The manifest\<close>

record User =
  Name :: string
  PublicKey :: string

record Manifest =
  ProjectName :: string
  AccessControl :: "User list"

text \<open>
  \<^verbatim>\<open>sort.Slice\<close> on a slice of at most twelve elements is the insertion sort of
  package sort: element \<open>i\<close> moves left while \<^verbatim>\<open>less(j, j-1)\<close> holds. Longer
  slices go through pattern-defeating quicksort, which may order elements that
  the comparison does not separate differently; the model is the insertion sort.
  \<open>bubble\<close> works on the reversed prefix.
\<close>

fun bubble :: "('a \<Rightarrow> 'a \<Rightarrow> bool) \<Rightarrow> 'a \<Rightarrow> 'a list \<Rightarrow> 'a list" where
  "bubble lt x [] = [x]"
| "bubble lt x (y # prefix) =
     (if lt x y then y # bubble lt x prefix else x # y # prefix)"

definition sortSlice :: "('a \<Rightarrow> 'a \<Rightarrow> bool) \<Rightarrow> 'a list \<Rightarrow> 'a list" where
  "sortSlice lt xs = rev (fold (bubble lt) xs [])"

definition AddUser :: "string \<Rightarrow> string \<Rightarrow> Manifest \<Rightarrow> error option \<times> Manifest" where
  "AddUser name pubKey m =
     (let name = TrimSpace name;
          pubKey = TrimSpace pubKey
      in if name = [] then (Some ErrInvalidName, m)
         else if pubKey = [] then (Some ErrInvalidPubKey, m)
         else if list_ex (\<lambda>u. PublicKey u = pubKey) (AccessControl m)
           then (Some ErrUserExists, m)
         else
           (let ac = AccessControl m @ [\<lparr>Name = name, PublicKey = pubKey\<rparr>];
                ac = sortSlice (\<lambda>a b. Name a < Name b) ac
            in (None, m\<lparr>AccessControl := ac\<rparr>)))"

fun dedupeLoop :: "User list \<Rightarrow> string list \<Rightarrow> User list \<Rightarrow> User list" where
  "dedupeLoop [] seen out = out"
| "dedupeLoop (u # rest) seen out =
     (let u = u\<lparr>Name := TrimSpace (Name u), PublicKey := TrimSpace (PublicKey u)\<rparr>
      in if PublicKey u = [] then dedupeLoop rest seen out
         else if PublicKey u \<in> set seen then dedupeLoop rest seen out
         else dedupeLoop rest (PublicKey u # seen) (out @ [u]))"

definition normalizeInPlace :: "Manifest \<Rightarrow> Manifest" where
  "normalizeInPlace m =
     (let out = dedupeLoop (AccessControl m) [] [];
          out = sortSlice
                  (\<lambda>a b. if Name a = Name b then PublicKey a < PublicKey b
                          else Name a < Name b) out
      in m\<lparr>AccessControl := out\<rparr>)"

definition GetPublicKeys :: "Manifest \<Rightarrow> string list" where
  "GetPublicKeys m = map PublicKey (filter (\<lambda>u. PublicKey u \<noteq> []) (AccessControl m))"

section \<open>The rekey command\<close>

text \<open>
  The command's collaborators: the three stores of \<^verbatim>\<open>Deps\<close>, the two package
  paths, and the file-system calls of \<^verbatim>\<open>Save\<close>. \<open>'w\<close> is the state of the disk.
  Terminal output is not modelled.
\<close>

record ('y, 'w) env =
  identityFilePath :: string
  secretFilePath :: string
  IdentityManager_Load :: "string \<Rightarrow> 'w \<Rightarrow> error + X25519Identity option"
  ManifestStore_Load :: "'w \<Rightarrow> error + Manifest"
  SecretsStore_Load :: "string \<Rightarrow> 'w \<Rightarrow> error + SecretFile"
  Dir :: "string \<Rightarrow> string"
  MkdirAll :: "string \<Rightarrow> nat \<Rightarrow> 'w \<Rightarrow> error option \<times> 'w"
  AtomicWriteFile :: "string \<Rightarrow> 'y \<Rightarrow> nat \<Rightarrow> 'w \<Rightarrow> error option \<times> 'w"

definition Save :: "'y ext \<Rightarrow> ('y, 'w) env \<Rightarrow> SecretFile \<Rightarrow> 'w \<Rightarrow> error option \<times> 'w" where
  "Save P E sf w =
     (case yamlMarshal P (VStrMap (RawData sf)) of
        Inl err \<Rightarrow> (Some err, w)
      | Inr data \<Rightarrow>
          (case MkdirAll E (Dir E (path sf)) 493 w of
             (Some err, w1) \<Rightarrow> (Some err, w1)
           | (None, w1) \<Rightarrow> AtomicWriteFile E (path sf) data 384 w1))"

fun resealLoop ::
  "'y ext \<Rightarrow> (string \<times> string) list \<Rightarrow> SecretFile \<Rightarrow> string
   \<Rightarrow> error option \<times> SecretFile \<times> string" where
  "resealLoop P [] sf rnd = (None, sf, rnd)"
| "resealLoop P ((k, v) # rest) sf rnd =
     (case SetSecret P k v sf rnd of
        (Some err, sf1, r) \<Rightarrow> (Some (ErrWrap ''failed to re-encrypt %s: %w'' [VStr k] err), sf1, r)
      | (None, sf1, r) \<Rightarrow> resealLoop P rest sf1 r)"

text \<open>
  The body of \<^verbatim>\<open>if rotate { ... }\<close> in \<^verbatim>\<open>runRekey\<close>: read every secret, make a new
  key and recipient list with \<^verbatim>\<open>Init\<close>, and set every secret again.
\<close>

definition rotateBranch ::
  "'y ext \<Rightarrow> string list \<Rightarrow> SecretFile \<Rightarrow> string \<Rightarrow> error option \<times> SecretFile \<times> string" where
  "rotateBranch P recipients sf rnd =
     (case GetAllSecrets P sf of
        (Inl err, sf1) \<Rightarrow> (Some (ErrWrap ''failed to read current secrets: %w'' [] err), sf1, rnd)
      | (Inr all, sf1) \<Rightarrow>
          (case Init P recipients sf1 rnd of
             (Some err, sf2, r) \<Rightarrow>
               (Some (ErrWrap ''failed to initialize new key: %w'' [] err), sf2, r)
           | (None, sf2, r) \<Rightarrow> resealLoop P (mapEntries all) sf2 r))"

text \<open>
  \<^verbatim>\<open>runRekey\<close> returns its error and the disk it leaves. The file it loads is
  local to the call and locked by the deferred \<^verbatim>\<open>Lock\<close> on every return after
  a successful \<^verbatim>\<open>Unlock\<close>.
\<close>

definition runRekey ::
  "'y ext \<Rightarrow> ('y, 'w) env \<Rightarrow> error + bool \<Rightarrow> string \<Rightarrow> 'w \<Rightarrow> error option \<times> 'w" where
  "runRekey P E rotateFlag rnd w =
     (case rotateFlag of
        Inl err \<Rightarrow> (Some err, w)
      | Inr doRotate \<Rightarrow>
     (case IdentityManager_Load E (identityFilePath E) w of
        Inl err \<Rightarrow> (Some (ErrWrap ''identity error (run 'envseal init' first?): %w'' [] err), w)
      | Inr identity \<Rightarrow>
     (case ManifestStore_Load E w of
        Inl err \<Rightarrow> (Some (ErrWrap ''failed to load manifest: %w'' [] err), w)
      | Inr manifest \<Rightarrow>
     (case SecretsStore_Load E (secretFilePath E) w of
        Inl err \<Rightarrow> (Some (ErrWrap ''failed to load %s: %w'' [VStr (secretFilePath E)] err), w)
      | Inr sf \<Rightarrow>
     (case Unlock P identity sf of
        (Some err, sf1) \<Rightarrow>
          (Some (ErrWrap ''failed to unlock %s: %w'' [VStr (secretFilePath E)] err), w)
      | (None, sf1) \<Rightarrow>
          (let recipients = GetPublicKeys manifest in
           if length recipients = 0
           then (Some (ErrF ''manifest has no recipients; add at least one user before rekey'' []), w)
           else
             (case (if doRotate then rotateBranch P recipients sf1 rnd
                    else (case RotateRecipients P recipients sf1 rnd of
                            (Some err, sf2, r) \<Rightarrow>
                              (Some (ErrWrap ''failed to update recipients: %w'' [] err), sf2, r)
                          | (None, sf2, r) \<Rightarrow> (None, sf2, r))) of
                (Some err, sf2, r) \<Rightarrow> (Some err, w)
              | (None, sf2, r) \<Rightarrow>
                  (case Save P E sf2 w of
                     (Some err, w1) \<Rightarrow>
                       (Some (ErrWrap ''failed to save %s: %w'' [VStr (secretFilePath E)] err), w1)
                   | (None, w1) \<Rightarrow> (None, w1)))))))))"

section \<open>A reference instance of the capabilities\<close>

text \<open>
  A small executable instance, used to run the definitions on concrete inputs.
  The public key of the identity \<open>X25519Identity sk\<close> is \<open>''age1'' @ sk\<close>; a
  wrapped key names its recipient in the clear; the authenticated cipher reverses
  the plaintext and appends a tag of four key bytes and the nonce; the encoding
  is the identity; serialized YAML is the value itself.
\<close>

definition refAgeDecrypt :: "string \<Rightarrow> X25519Identity \<Rightarrow> ageOutcome" where
  "refAgeDecrypt enc identity =
     (case identity of
        X25519Identity sk \<Rightarrow>
          (if HasPrefix enc (sk @ '':'') then Payload (drop (length sk + 1) enc)
           else DecryptFailed (ErrNew ''no identity matched any of the recipients'')))"

definition refParseRecipient :: "string \<Rightarrow> error + X25519Recipient" where
  "refParseRecipient s =
     (if HasPrefix s ''age1'' \<and> 4 < length s then Inr (X25519Recipient (drop 4 s))
      else Inl (ErrNew ''malformed recipient''))"

definition refAgeEncrypt ::
  "X25519Recipient list \<Rightarrow> string \<Rightarrow> string \<Rightarrow> (error + string) \<times> string" where
  "refAgeEncrypt rs payload rnd =
     (case rs of
        [] \<Rightarrow> (Inl (ErrNew ''no recipients specified''), rnd)
      | X25519Recipient r # _ \<Rightarrow> (Inr (r @ '':'' @ payload), rnd))"

definition refSeal :: "string \<Rightarrow> string \<Rightarrow> string \<Rightarrow> string" where
  "refSeal k n p = rev p @ take 4 k @ n"

definition refOpen :: "string \<Rightarrow> string \<Rightarrow> string \<Rightarrow> string option" where
  "refOpen k n c =
     (if length (take 4 k @ n) \<le> length c
         \<and> drop (length c - length (take 4 k @ n)) c = take 4 k @ n
      then Some (rev (take (length c - length (take 4 k @ n)) c))
      else None)"

definition refDecodeString :: "any \<Rightarrow> error + string" where
  "refDecodeString v =
     (case v of
        VStr s \<Rightarrow> Inr s
      | VNil \<Rightarrow> Inr []
      | _ \<Rightarrow> Inl (ErrNew ''yaml: cannot unmarshal into string''))"

definition refDecodeRecipient :: "any \<Rightarrow> error + Recipient" where
  "refDecodeRecipient v =
     (case v of
        VStrMap m \<Rightarrow>
          (case refDecodeString (case map_of m ''arg'' of None \<Rightarrow> VNil | Some a \<Rightarrow> a) of
             Inl e \<Rightarrow> Inl e
           | Inr a \<Rightarrow>
               (case refDecodeString (case map_of m ''enc'' of None \<Rightarrow> VNil | Some c \<Rightarrow> c) of
                  Inl e \<Rightarrow> Inl e
                | Inr c \<Rightarrow> Inr \<lparr>Arg = a, Enc = c\<rparr>))
      | VNil \<Rightarrow> Inr \<lparr>Arg = [], Enc = []\<rparr>
      | _ \<Rightarrow> Inl (ErrNew ''yaml: cannot unmarshal into config.Recipient''))"

fun refDecodeRecipients :: "any list \<Rightarrow> error + Recipient list" where
  "refDecodeRecipients [] = Inr []"
| "refDecodeRecipients (v # vs) =
     (case refDecodeRecipient v of
        Inl e \<Rightarrow> Inl e
      | Inr r \<Rightarrow>
          (case refDecodeRecipients vs of
             Inl e \<Rightarrow> Inl e
           | Inr rs \<Rightarrow> Inr (r # rs)))"

definition refUnmarshalMetadata :: "any \<Rightarrow> error + Metadata" where
  "refUnmarshalMetadata v =
     (case v of
        VMeta m \<Rightarrow> Inr m
      | VNil \<Rightarrow> Inr \<lparr>Recipients = []\<rparr>
      | VStrMap m \<Rightarrow>
          (case map_of m ''recipients'' of
             None \<Rightarrow> Inr \<lparr>Recipients = []\<rparr>
           | Some VNil \<Rightarrow> Inr \<lparr>Recipients = []\<rparr>
           | Some (VSeq vs) \<Rightarrow>
               (case refDecodeRecipients vs of
                  Inl e \<Rightarrow> Inl e
                | Inr rs \<Rightarrow> Inr \<lparr>Recipients = rs\<rparr>)
           | Some _ \<Rightarrow> Inl (ErrNew ''yaml: cannot unmarshal into []config.Recipient''))
      | _ \<Rightarrow> Inl (ErrNew ''yaml: cannot unmarshal into config.Metadata''))"

definition refUnmarshalMap :: "any \<Rightarrow> error + (string \<times> any) list" where
  "refUnmarshalMap v =
     (case v of
        VStrMap m \<Rightarrow> Inr m
      | VNil \<Rightarrow> Inr []
      | _ \<Rightarrow> Inl (ErrNew ''yaml: cannot unmarshal into map[string]interface {}''))"

definition refSprintV :: "any \<Rightarrow> string" where
  "refSprintV v = (case v of VStr s \<Rightarrow> s | VNil \<Rightarrow> ''<nil>'' | _ \<Rightarrow> ''<value>'')"

definition refExt :: "any ext" where
  "refExt =
     \<lparr>ageDecrypt = refAgeDecrypt,
      parseX25519Recipient = refParseRecipient,
      ageEncrypt = refAgeEncrypt,
      aeadSeal = refSeal,
      aeadOpen = refOpen,
      b64Encode = (\<lambda>bs. bs),
      b64Decode = (\<lambda>s. Inr s),
      yamlMarshal = (\<lambda>v. Inr v),
      yamlUnmarshalMetadata = refUnmarshalMetadata,
      yamlUnmarshalMap = refUnmarshalMap,
      sprintV = refSprintV\<rparr>"

section \<open>Example documents\<close>

definition exKey :: string where
  "exKey = replicate 32 (CHR ''k'')"

text \<open>
  A locked document with one sealed secret and two recipient entries: the first
  holds a wrapped key that is not a wrapped key, the second wraps \<open>exKey\<close> for
  the identity \<open>alice\<close>.
\<close>

definition exDoc :: SecretFile where
  "exDoc =
     \<lparr>RawData =
        [(''secrets'', VStrMap [(''K'', VStr ''ENC[age,chacha20,nnnnnnnnnnnnvkkkknnnnnnnnnnnn]'')]),
         (''_envseal'',
          VMeta \<lparr>Recipients =
            [\<lparr>Arg = ''age1bob'', Enc = ''garbage''\<rparr>,
             \<lparr>Arg = ''age1alice'', Enc = ''alice:'' @ exKey\<rparr>]\<rparr>)],
      decryptedDEK = None, path = ''secrets.enc.yaml'', heap = (\<lambda>_. []), brk = 0\<rparr>"

text \<open>The same document after \<^verbatim>\<open>Unlock\<close> with the identity \<open>alice\<close>.\<close>

definition exUnlocked :: SecretFile where
  "exUnlocked = exDoc\<lparr>decryptedDEK := Some 0, heap := (\<lambda>_. [])(0 := exKey), brk := 1\<rparr>"

text \<open>Documents whose metadata block is a string, or has a string for its list.\<close>

definition exJunkDoc :: SecretFile where
  "exJunkDoc =
     \<lparr>RawData = [(''secrets'', VStrMap []), (''_envseal'', VStr ''junk'')],
      decryptedDEK = None, path = ''secrets.enc.yaml'', heap = (\<lambda>_. []), brk = 0\<rparr>"

definition exMalformedDoc :: SecretFile where
  "exMalformedDoc =
     \<lparr>RawData = [(''secrets'', VStrMap []),
                 (''_envseal'', VStrMap [(''recipients'', VStr ''oops'')])],
      decryptedDEK = None, path = ''secrets.enc.yaml'', heap = (\<lambda>_. []), brk = 0\<rparr>"

text \<open>
  An unlocked document with a sealed secret, a secret whose ciphertext is cut
  short, a secret that is not a string, and a plain top-level entry.
\<close>

definition exMixed :: SecretFile where
  "exMixed =
     exUnlocked\<lparr>RawData :=
       [(''secrets'',
         VStrMap [(''K'', VStr ''ENC[age,chacha20,nnnnnnnnnnnnvkkkknnnnnnnnnnnn]''),
                  (''BAD'', VStr ''ENC[age,chacha20,xx]''),
                  (''N'', VInt 5)]),
        (''_envseal'', VMeta \<lparr>Recipients = [\<lparr>Arg = ''age1alice'', Enc = ''alice:'' @ exKey\<rparr>]\<rparr>),
        (''OLD'', VStr ''plain'')]\<rparr>"

text \<open>
  A disk that holds \<open>exDoc\<close>, and collaborators for \<^verbatim>\<open>runRekey\<close>: the identity
  \<open>alice\<close>, a manifest whose second public key is not a public key, the secret
  file read from the disk, and writes that replace the file.
\<close>

definition exDisk :: "string \<Rightarrow> any fileRead" where
  "exDisk = (\<lambda>p. NotExist)(''secrets.enc.yaml'' := Contents (VStrMap (RawData exDoc)))"

definition exManifest :: Manifest where
  "exManifest =
     \<lparr>ProjectName = ''demo'',
      AccessControl = [\<lparr>Name = ''bob'', PublicKey = ''age1bob''\<rparr>,
                       \<lparr>Name = ''eve'', PublicKey = ''bogus''\<rparr>]\<rparr>"

definition exEnv :: "(any, string \<Rightarrow> any fileRead) env" where
  "exEnv =
     \<lparr>identityFilePath = ''identity'',
      secretFilePath = ''secrets.enc.yaml'',
      IdentityManager_Load = (\<lambda>p w. Inr (Some (X25519Identity ''alice''))),
      ManifestStore_Load = (\<lambda>w. Inr exManifest),
      SecretsStore_Load = (\<lambda>p w. LoadSecretFile refExt w p),
      Dir = (\<lambda>p. ''.''),
      MkdirAll = (\<lambda>d perm w. (None, w)),
      AtomicWriteFile = (\<lambda>p data perm w. (None, w(p := Contents data)))\<rparr>"

section \<open>Properties\<close>

lemma zero_fold_prefix:
  "n \<le> length buf \<Longrightarrow>
   fold (\<lambda>i b. b[i := c]) [0..<n] buf = replicate n c @ drop n buf"
proof (induction n)
  case 0
  then show ?case by simp
next
  case (Suc n)
  then have "n < length buf" by simp
  then have "(replicate n c @ drop n buf)[n := c] = replicate (Suc n) c @ drop (Suc n) buf"
    by (simp add: list_update_append replicate_append_same upd_conv_take_nth_drop
        flip: Cons_nth_drop_Suc)
  with Suc show ?case by simp
qed

lemma zeroBytes_Some:
  "zeroBytes (Some a) h = h(a := replicate (length (h a)) (CHR 0x00))"
  by (simp add: zeroBytes_def zero_fold_prefix)

lemma zeroBytes_None: "zeroBytes None h = h"
  by (simp add: zeroBytes_def)

text \<open>
  C8. \<^verbatim>\<open>Lock\<close> is total and idempotent: it overwrites every byte of the key
  buffer with zero and sets the reference to nil; on a locked file it changes
  nothing; after one call and after two calls the file is locked, and the second
  call changes nothing.
\<close>

theorem Lock_idempotent_total:
  "decryptedDEK (Lock sf) = None
   \<and> \<not> IsUnlocked (Lock sf)
   \<and> \<not> IsUnlocked (Lock (Lock sf))
   \<and> Lock (Lock sf) = Lock sf
   \<and> (decryptedDEK sf = None \<longrightarrow> Lock sf = sf)
   \<and> (\<forall>a. decryptedDEK sf = Some a \<longrightarrow>
         heap (Lock sf) a = replicate (length (heap sf a)) (CHR 0x00))
   \<and> RawData (Lock sf) = RawData sf"
  by (cases "decryptedDEK sf")
     (simp_all add: Lock_def IsUnlocked_def zeroBytes_Some zeroBytes_None)

theorem Lock_idempotent_total_witness:
  "decryptedDEK (\<lparr>RawData = [], decryptedDEK = Some 0, path = ''f'',
       heap = (\<lambda>_. [])(0 := ''key''), brk = 1\<rparr>) = Some 0
   \<and> heap (Lock \<lparr>RawData = [], decryptedDEK = Some 0, path = ''f'',
       heap = (\<lambda>_. [])(0 := ''key''), brk = 1\<rparr>) 0 = [CHR 0x00, CHR 0x00, CHR 0x00]
   \<and> \<not> IsUnlocked (Lock (Lock \<lparr>RawData = [], decryptedDEK = Some 0, path = ''f'',
       heap = (\<lambda>_. [])(0 := ''key''), brk = 1\<rparr>))"
  using Lock_idempotent_total [of "\<lparr>RawData = [], decryptedDEK = Some 0, path = ''f'',
       heap = (\<lambda>_. [])(0 := ''key''), brk = 1\<rparr>"]
  by (simp add: numeral_3_eq_3)

lemma fillRandom_enough:
  "n \<le> length rnd \<Longrightarrow> fillRandom n rnd = (Inr (take n rnd), drop n rnd)"
  by (simp add: fillRandom_def)

lemma fillRandom_Inr:
  "fillRandom n rnd = (Inr bs, r) \<Longrightarrow> length bs = n \<and> bs = take n rnd \<and> r = drop n rnd"
  by (auto simp: fillRandom_def split: if_splits)

lemma decryptIfNeeded_wrapEncrypted:
  "decryptIfNeeded P (wrapEncrypted c) k = DecryptValue P c k"
  by (simp add: decryptIfNeeded_def wrapEncrypted_def HasPrefix_def HasSuffix_def
      encPrefix_def encSuffix_def)

lemma EncryptValue_Inr:
  assumes "EncryptValue P p k rnd = (Inr c, r)"
  shows "length k = 32 \<and> NonceSize \<le> length rnd
         \<and> c = b64Encode P (take NonceSize rnd @ aeadSeal P k (take NonceSize rnd) p)"
  using assms
  by (auto simp: EncryptValue_def validateDEK_def dekSize_def chacha20poly1305_New_def
      fillRandom_def Let_def split: if_splits option.splits sum.splits prod.splits)

text \<open>
  C5. Round trip. Given an encoding whose decoder inverts its encoder and an
  authenticated cipher whose \<open>Open\<close> inverts \<open>Seal\<close> under the key \<open>k\<close> for
  every nonce of the nonce size, for every plaintext \<open>p\<close> and every key \<open>k\<close> of
  32 bytes: sealing succeeds whenever the random source delivers a nonce, and
  whatever sealing returns, unsealing it with \<open>k\<close> returns exactly \<open>p\<close>, also
  through the \<^verbatim>\<open>ENC[...]\<close> wrapper of the document.
\<close>

theorem seal_unseal_roundtrip:
  assumes b64: "\<forall>bs. b64Decode P (b64Encode P bs) = Inr bs"
      and aead: "\<forall>n p. length n = NonceSize \<longrightarrow> aeadOpen P k n (aeadSeal P k n p) = Some p"
      and k: "length k = 32"
  shows "(NonceSize \<le> length rnd \<longrightarrow> (\<exists>c. fst (EncryptValue P p k rnd) = Inr c))
       \<and> (\<forall>c. fst (EncryptValue P p k rnd) = Inr c \<longrightarrow>
             DecryptValue P c k = Inr p \<and> decryptIfNeeded P (wrapEncrypted c) k = Inr p)"
proof (intro conjI impI allI)
  assume "NonceSize \<le> length rnd"
  then show "\<exists>c. fst (EncryptValue P p k rnd) = Inr c"
    using k
    by (simp add: EncryptValue_def validateDEK_def dekSize_def chacha20poly1305_New_def
        fillRandom_enough)
next
  fix c
  assume c: "fst (EncryptValue P p k rnd) = Inr c"
  then obtain r where "EncryptValue P p k rnd = (Inr c, r)"
    by (cases "EncryptValue P p k rnd") simp
  then have n: "NonceSize \<le> length rnd"
    and ceq: "c = b64Encode P (take NonceSize rnd @ aeadSeal P k (take NonceSize rnd) p)"
    using EncryptValue_Inr by blast+
  have len: "length (take NonceSize rnd) = NonceSize"
    using n by simp
  have "aeadOpen P k (take NonceSize rnd) (aeadSeal P k (take NonceSize rnd) p) = Some p"
    using aead len by blast
  then show d: "DecryptValue P c k = Inr p"
    using k b64 len
    by (simp add: DecryptValue_def validateDEK_def dekSize_def chacha20poly1305_New_def ceq Let_def)
  show "decryptIfNeeded P (wrapEncrypted c) k = Inr p"
    using d by (simp add: decryptIfNeeded_wrapEncrypted)
qed

theorem seal_unseal_roundtrip_witness:
  "(\<forall>bs. b64Decode refExt (b64Encode refExt bs) = Inr bs)
   \<and> (\<forall>p. aeadOpen refExt (replicate 32 (CHR ''k'')) ''nnnnnnnnnnnn''
            (aeadSeal refExt (replicate 32 (CHR ''k'')) ''nnnnnnnnnnnn'' p) = Some p)
   \<and> length (replicate 32 (CHR ''k'')) = 32
   \<and> NonceSize \<le> length ''nnnnnnnnnnnn''
   \<and> fst (EncryptValue refExt ''v'' (replicate 32 (CHR ''k'')) ''nnnnnnnnnnnn'')
       = Inr ''nnnnnnnnnnnnvkkkknnnnnnnnnnnn''
   \<and> DecryptValue refExt ''nnnnnnnnnnnnvkkkknnnnnnnnnnnn'' (replicate 32 (CHR ''k'')) = Inr ''v''"
proof -
  let ?k = "replicate 32 (CHR ''k'')"
  have b64: "\<forall>bs. b64Decode refExt (b64Encode refExt bs) = Inr bs"
    by (simp add: refExt_def)
  have aead: "\<forall>n p. length n = NonceSize \<longrightarrow> aeadOpen refExt ?k n (aeadSeal refExt ?k n p) = Some p"
    by (simp add: refExt_def refOpen_def refSeal_def)
  have k: "length ?k = 32" by simp
  have n: "NonceSize \<le> length ''nnnnnnnnnnnn''" by (simp add: NonceSize_def)
  have e: "fst (EncryptValue refExt ''v'' ?k ''nnnnnnnnnnnn'') = Inr ''nnnnnnnnnnnnvkkkknnnnnnnnnnnn''"
    by (simp add: EncryptValue_def validateDEK_def dekSize_def chacha20poly1305_New_def
        fillRandom_def NonceSize_def refExt_def refSeal_def eval_nat_numeral)
  from seal_unseal_roundtrip [OF b64 aead k, of "''nnnnnnnnnnnn''" "''v''"] e
  have "DecryptValue refExt ''nnnnnnnnnnnnvkkkknnnnnnnnnnnn'' ?k = Inr ''v''"
    by simp
  moreover have "\<forall>p. aeadOpen refExt ?k ''nnnnnnnnnnnn'' (aeadSeal refExt ?k ''nnnnnnnnnnnn'' p) = Some p"
    using aead by (simp add: NonceSize_def)
  ultimately show ?thesis
    using b64 k n e by blast
qed

lemma NewSecretFile_eq:
  "NewSecretFile p =
     \<lparr>RawData = [(SecretsKey, VStrMap [])], decryptedDEK = None, path = p,
      heap = (\<lambda>_. []), brk = 0\<rparr>"
  by (simp add: NewSecretFile_def ensureSecretsMap_def)

lemma keys_distinct: "SecretsKey \<noteq> MetadataKey"
  by (simp add: SecretsKey_def MetadataKey_def)

text \<open>
  C9. At a path where no file exists, \<^verbatim>\<open>LoadSecretFile\<close> returns without error
  a new file that is locked, whose \<^verbatim>\<open>secrets\<close> map is empty and which has no
  metadata block; \<^verbatim>\<open>Unlock\<close> on it, with any private key, fails with
  \<^verbatim>\<open>ErrMissingMetadata\<close> and leaves it as it is.
\<close>

theorem LoadSecretFile_missing_file:
  assumes "fs p = NotExist"
  shows "LoadSecretFile P fs p = Inr (NewSecretFile p)
       \<and> RawData (NewSecretFile p) = [(SecretsKey, VStrMap [])]
       \<and> map_of (RawData (NewSecretFile p)) SecretsKey = Some (VStrMap [])
       \<and> map_of (RawData (NewSecretFile p)) MetadataKey = None
       \<and> \<not> IsUnlocked (NewSecretFile p)
       \<and> Unlock P (Some idt) (NewSecretFile p) = (Some ErrMissingMetadata, NewSecretFile p)"
  using assms keys_distinct
  by (simp add: LoadSecretFile_def NewSecretFile_eq IsUnlocked_def Unlock_def)

theorem LoadSecretFile_missing_file_witness:
  "(\<lambda>q. NotExist :: any fileRead) ''secrets.enc.yaml'' = NotExist
   \<and> LoadSecretFile refExt (\<lambda>q. NotExist) ''secrets.enc.yaml''
       = Inr \<lparr>RawData = [(''secrets'', VStrMap [])], decryptedDEK = None,
              path = ''secrets.enc.yaml'', heap = (\<lambda>_. []), brk = 0\<rparr>
   \<and> fst (Unlock refExt (Some (X25519Identity ''alice'')) (NewSecretFile ''secrets.enc.yaml''))
       = Some ErrMissingMetadata"
  using LoadSecretFile_missing_file [of "\<lambda>q. NotExist" "''secrets.enc.yaml''" refExt
      "X25519Identity ''alice''"]
  by (simp add: NewSecretFile_eq SecretsKey_def)

text \<open>
  C10. On an unlocked file, \<^verbatim>\<open>GetSecret\<close> with a name that trims to
  \<^verbatim>\<open>_envseal\<close> or \<^verbatim>\<open>secrets\<close> fails with the reserved-key error, which is not
  \<^verbatim>\<open>ErrKeyNotFound\<close>, returns no content and leaves the file as it is, whatever
  the document holds under that key.
\<close>

theorem GetSecret_reserved_key:
  assumes "IsUnlocked sf"
      and "TrimSpace key = MetadataKey \<or> TrimSpace key = SecretsKey"
  shows "GetSecret P key sf =
           (Inl (ErrF ''reserved key %q cannot be retrieved as a secret'' [VStr (TrimSpace key)]), sf)
       \<and> fst (GetSecret P key sf) \<noteq> Inl ErrKeyNotFound
       \<and> (\<forall>s. fst (GetSecret P key sf) \<noteq> Inr s)"
proof -
  have "TrimSpace key \<noteq> []"
    using assms(2) by (auto simp: MetadataKey_def SecretsKey_def)
  then show ?thesis
    using assms by (auto simp: GetSecret_def IsUnlocked_def Let_def)
qed

lemma TrimSpace_padded_envseal: "TrimSpace '' _envseal  '' = ''_envseal''"
  by code_simp

theorem GetSecret_reserved_key_witness:
  "IsUnlocked \<lparr>RawData = [(''secrets'', VStrMap [(''secrets'', VStr ''x'')]), (''_envseal'', VStr ''y'')],
               decryptedDEK = Some 0, path = ''f'',
               heap = (\<lambda>_. [])(0 := replicate 32 (CHR ''k'')), brk = 1\<rparr>
   \<and> TrimSpace '' _envseal  '' = MetadataKey
   \<and> map_of (RawData \<lparr>RawData = [(''secrets'', VStrMap [(''secrets'', VStr ''x'')]), (''_envseal'', VStr ''y'')],
               decryptedDEK = Some 0, path = ''f'',
               heap = (\<lambda>_. [])(0 := replicate 32 (CHR ''k'')), brk = 1\<rparr>) ''_envseal'' = Some (VStr ''y'')
   \<and> fst (GetSecret refExt '' _envseal  ''
         \<lparr>RawData = [(''secrets'', VStrMap [(''secrets'', VStr ''x'')]), (''_envseal'', VStr ''y'')],
          decryptedDEK = Some 0, path = ''f'',
          heap = (\<lambda>_. [])(0 := replicate 32 (CHR ''k'')), brk = 1\<rparr>)
       = Inl (ErrF ''reserved key %q cannot be retrieved as a secret'' [VStr ''_envseal''])"
proof -
  let ?sf = "\<lparr>RawData = [(''secrets'', VStrMap [(''secrets'', VStr ''x'')]), (''_envseal'', VStr ''y'')],
               decryptedDEK = Some 0, path = ''f'',
               heap = (\<lambda>_. [])(0 := replicate 32 (CHR ''k'')), brk = 1\<rparr>"
  have u: "IsUnlocked ?sf" by (simp add: IsUnlocked_def)
  have t: "TrimSpace '' _envseal  '' = MetadataKey"
    by (simp add: TrimSpace_padded_envseal MetadataKey_def)
  from GetSecret_reserved_key [OF u disjI1 [OF t], of refExt] u t
  show ?thesis by (simp add: MetadataKey_def)
qed

lemma DecryptDEK_Inr_iff:
  "DecryptDEK P enc (Some idt) = Inr k
   \<longleftrightarrow> enc \<noteq> [] \<and> ageDecrypt P enc idt = Payload k \<and> length k = 32"
  by (auto simp: DecryptDEK_def validateDEK_def dekSize_def
      split: ageOutcome.splits option.splits if_splits)

lemma replaceDEK_fields:
  "dekBytes (replaceDEK k sf) = k"
  "RawData (replaceDEK k sf) = RawData sf"
  "path (replaceDEK k sf) = path sf"
  "IsUnlocked (replaceDEK k sf)"
  by (simp_all add: replaceDEK_def cloneBytes_def dekBytes_def IsUnlocked_def Let_def)

lemma unlockLoop_first:
  assumes "\<forall>q\<in>set pre. \<forall>b. DecryptDEK P (Enc q) (Some idt) \<noteq> Inr b"
      and "DecryptDEK P (Enc r) (Some idt) = Inr k"
  shows "unlockLoop P idt (pre @ r # post) sf = (None, replaceDEK k sf)"
  using assms
proof (induction pre)
  case Nil
  then show ?case by simp
next
  case (Cons q pre)
  then have "\<exists>e. DecryptDEK P (Enc q) (Some idt) = Inl e"
    by (cases "DecryptDEK P (Enc q) (Some idt)") auto
  with Cons show ?case by auto
qed

lemma unlockLoop_none:
  assumes "\<forall>q\<in>set rs. \<forall>b. DecryptDEK P (Enc q) (Some idt) \<noteq> Inr b"
  shows "unlockLoop P idt rs sf = (Some ErrAccessDenied, sf)"
  using assms
proof (induction rs)
  case Nil
  then show ?case by simp
next
  case (Cons q rs)
  then have "\<exists>e. DecryptDEK P (Enc q) (Some idt) = Inl e"
    by (cases "DecryptDEK P (Enc q) (Some idt)") auto
  with Cons show ?case by auto
qed

lemma unlockLoop_fails:
  "fst (unlockLoop P idt rs sf) \<noteq> None \<Longrightarrow> unlockLoop P idt rs sf = (Some ErrAccessDenied, sf)"
  by (induction rs) (auto split: sum.splits)

lemma Unlock_decoded:
  assumes "map_of (RawData sf) MetadataKey = Some mi"
      and "yamlMarshal P mi = Inr mb"
      and "yamlUnmarshalMetadata P mb = Inr meta"
  shows "Unlock P (Some idt) sf = unlockLoop P idt (Recipients meta) sf"
  using assms by (simp add: Unlock_def)

text \<open>
  C3, as the code has it. If the document has no metadata block, \<^verbatim>\<open>Unlock\<close>
  fails with \<^verbatim>\<open>ErrMissingMetadata\<close>. If the metadata block encodes and decodes
  into a recipient list, \<^verbatim>\<open>Unlock\<close> goes through the entries in stored order:
  the first entry whose wrapped key is not empty and decrypts under the private
  key to 32 bytes makes those bytes the active key and \<^verbatim>\<open>Unlock\<close> succeeds,
  leaving the document as it is; if no entry does, \<^verbatim>\<open>Unlock\<close> fails with
  \<^verbatim>\<open>ErrAccessDenied\<close> and changes nothing.
\<close>

theorem Unlock_first_match:
  "(map_of (RawData sf) MetadataKey = None \<longrightarrow>
      Unlock P (Some idt) sf = (Some ErrMissingMetadata, sf))
   \<and> (map_of (RawData sf) MetadataKey = Some mi \<and> yamlMarshal P mi = Inr mb
        \<and> yamlUnmarshalMetadata P mb = Inr meta \<longrightarrow>
        (\<forall>pre r post k.
            Recipients meta = pre @ r # post
            \<and> (\<forall>q\<in>set pre. \<not> (Enc q \<noteq> []
                  \<and> (\<exists>b. ageDecrypt P (Enc q) idt = Payload b \<and> length b = 32)))
            \<and> Enc r \<noteq> [] \<and> ageDecrypt P (Enc r) idt = Payload k \<and> length k = 32
            \<longrightarrow> Unlock P (Some idt) sf = (None, replaceDEK k sf)
                \<and> dekBytes (replaceDEK k sf) = k
                \<and> IsUnlocked (replaceDEK k sf)
                \<and> RawData (replaceDEK k sf) = RawData sf)
        \<and> ((\<forall>q\<in>set (Recipients meta). \<not> (Enc q \<noteq> []
                  \<and> (\<exists>b. ageDecrypt P (Enc q) idt = Payload b \<and> length b = 32)))
            \<longrightarrow> Unlock P (Some idt) sf = (Some ErrAccessDenied, sf)))"
proof (intro conjI impI allI)
  assume "map_of (RawData sf) MetadataKey = None"
  then show "Unlock P (Some idt) sf = (Some ErrMissingMetadata, sf)"
    by (simp add: Unlock_def)
next
  fix pre r post k
  assume d: "map_of (RawData sf) MetadataKey = Some mi \<and> yamlMarshal P mi = Inr mb
        \<and> yamlUnmarshalMetadata P mb = Inr meta"
  assume h: "Recipients meta = pre @ r # post
            \<and> (\<forall>q\<in>set pre. \<not> (Enc q \<noteq> []
                  \<and> (\<exists>b. ageDecrypt P (Enc q) idt = Payload b \<and> length b = 32)))
            \<and> Enc r \<noteq> [] \<and> ageDecrypt P (Enc r) idt = Payload k \<and> length k = 32"
  have pre: "\<forall>q\<in>set pre. \<forall>b. DecryptDEK P (Enc q) (Some idt) \<noteq> Inr b"
    using h by (auto simp: DecryptDEK_Inr_iff)
  have r: "DecryptDEK P (Enc r) (Some idt) = Inr k"
    using h by (simp add: DecryptDEK_Inr_iff)
  show "Unlock P (Some idt) sf = (None, replaceDEK k sf)"
    using d h unlockLoop_first [OF pre r] by (simp add: Unlock_decoded)
  show "dekBytes (replaceDEK k sf) = k" "IsUnlocked (replaceDEK k sf)"
    "RawData (replaceDEK k sf) = RawData sf"
    by (simp_all add: replaceDEK_fields)
next
  assume d: "map_of (RawData sf) MetadataKey = Some mi \<and> yamlMarshal P mi = Inr mb
        \<and> yamlUnmarshalMetadata P mb = Inr meta"
  assume h: "\<forall>q\<in>set (Recipients meta). \<not> (Enc q \<noteq> []
                  \<and> (\<exists>b. ageDecrypt P (Enc q) idt = Payload b \<and> length b = 32))"
  have "\<forall>q\<in>set (Recipients meta). \<forall>b. DecryptDEK P (Enc q) (Some idt) \<noteq> Inr b"
    using h by (auto simp: DecryptDEK_Inr_iff)
  then show "Unlock P (Some idt) sf = (Some ErrAccessDenied, sf)"
    using d by (simp add: Unlock_decoded unlockLoop_none)
qed

lemma exKey_length: "length exKey = 32"
  by (simp add: exKey_def)

lemma exDoc_meta:
  "map_of (RawData exDoc) MetadataKey
     = Some (VMeta \<lparr>Recipients =
            [\<lparr>Arg = ''age1bob'', Enc = ''garbage''\<rparr>,
             \<lparr>Arg = ''age1alice'', Enc = ''alice:'' @ exKey\<rparr>]\<rparr>)"
  by (simp add: exDoc_def MetadataKey_def)

lemma ref_garbage:
  "ageDecrypt refExt ''garbage'' (X25519Identity ''alice'')
     = DecryptFailed (ErrNew ''no identity matched any of the recipients'')"
  "ageDecrypt refExt ''garbage'' (X25519Identity ''carol'')
     = DecryptFailed (ErrNew ''no identity matched any of the recipients'')"
  by (simp_all add: refExt_def refAgeDecrypt_def HasPrefix_def)

lemma ref_alice:
  "ageDecrypt refExt (''alice:'' @ exKey) (X25519Identity ''alice'') = Payload exKey"
  "ageDecrypt refExt (''alice:'' @ exKey) (X25519Identity ''carol'')
     = DecryptFailed (ErrNew ''no identity matched any of the recipients'')"
  by (simp_all add: refExt_def refAgeDecrypt_def HasPrefix_def)

theorem Unlock_first_match_witness:
  "map_of (RawData exDoc) MetadataKey
     = Some (VMeta \<lparr>Recipients =
            [\<lparr>Arg = ''age1bob'', Enc = ''garbage''\<rparr>,
             \<lparr>Arg = ''age1alice'', Enc = ''alice:'' @ exKey\<rparr>]\<rparr>)
   \<and> ageDecrypt refExt ''garbage'' (X25519Identity ''alice'')
       = DecryptFailed (ErrNew ''no identity matched any of the recipients'')
   \<and> ageDecrypt refExt (''alice:'' @ exKey) (X25519Identity ''alice'') = Payload exKey
   \<and> length exKey = 32
   \<and> Unlock refExt (Some (X25519Identity ''alice'')) exDoc = (None, replaceDEK exKey exDoc)
   \<and> dekBytes (replaceDEK exKey exDoc) = exKey
   \<and> Unlock refExt (Some (X25519Identity ''carol'')) exDoc = (Some ErrAccessDenied, exDoc)
   \<and> map_of (RawData (NewSecretFile ''f'')) MetadataKey = None
   \<and> Unlock refExt (Some (X25519Identity ''alice'')) (NewSecretFile ''f'')
       = (Some ErrMissingMetadata, NewSecretFile ''f'')"
proof -
  let ?meta = "\<lparr>Recipients =
            [\<lparr>Arg = ''age1bob'', Enc = ''garbage''\<rparr>,
             \<lparr>Arg = ''age1alice'', Enc = ''alice:'' @ exKey\<rparr>]\<rparr>"
  have m: "yamlMarshal refExt (VMeta ?meta) = Inr (VMeta ?meta)"
    and u: "yamlUnmarshalMetadata refExt (VMeta ?meta) = Inr ?meta"
    by (simp_all add: refExt_def refUnmarshalMetadata_def)
  note thm_alice = Unlock_first_match [of exDoc refExt "X25519Identity ''alice''" "VMeta ?meta"
        "VMeta ?meta" ?meta]
  then have "\<forall>pre r post k.
            Recipients ?meta = pre @ r # post
            \<and> (\<forall>q\<in>set pre. \<not> (Enc q \<noteq> []
                  \<and> (\<exists>b. ageDecrypt refExt (Enc q) (X25519Identity ''alice'') = Payload b
                       \<and> length b = 32)))
            \<and> Enc r \<noteq> [] \<and> ageDecrypt refExt (Enc r) (X25519Identity ''alice'') = Payload k
            \<and> length k = 32
            \<longrightarrow> Unlock refExt (Some (X25519Identity ''alice'')) exDoc = (None, replaceDEK k exDoc)
                \<and> dekBytes (replaceDEK k exDoc) = k
                \<and> IsUnlocked (replaceDEK k exDoc)
                \<and> RawData (replaceDEK k exDoc) = RawData exDoc"
    using exDoc_meta m u by blast
  from this [rule_format, of "[\<lparr>Arg = ''age1bob'', Enc = ''garbage''\<rparr>]"
      "\<lparr>Arg = ''age1alice'', Enc = ''alice:'' @ exKey\<rparr>" "[]" exKey]
  have a: "Unlock refExt (Some (X25519Identity ''alice'')) exDoc = (None, replaceDEK exKey exDoc)
           \<and> dekBytes (replaceDEK exKey exDoc) = exKey"
    using ref_garbage ref_alice exKey_length by simp
  have c: "Unlock refExt (Some (X25519Identity ''carol'')) exDoc = (Some ErrAccessDenied, exDoc)"
    using Unlock_first_match [of exDoc refExt "X25519Identity ''carol''" "VMeta ?meta"
        "VMeta ?meta" ?meta] exDoc_meta m u ref_garbage ref_alice
    by simp
  have n: "map_of (RawData (NewSecretFile ''f'')) MetadataKey = None"
    using keys_distinct by (auto simp: NewSecretFile_eq)
  have e: "Unlock refExt (Some (X25519Identity ''alice'')) (NewSecretFile ''f'')
       = (Some ErrMissingMetadata, NewSecretFile ''f'')"
    using Unlock_first_match [of "NewSecretFile ''f''" refExt "X25519Identity ''alice''"] n
    by simp
  from a c n e exDoc_meta ref_garbage ref_alice exKey_length show ?thesis
    by simp
qed

theorem Unlock_undecodable_metadata_counterexample:
  "map_of (RawData exJunkDoc) MetadataKey = Some (VStr ''junk'')
   \<and> Unlock refExt (Some (X25519Identity ''alice'')) exJunkDoc
       = (Some (ErrWrap ''error parsing metadata: %w'' []
                 (ErrNew ''yaml: cannot unmarshal into config.Metadata'')), exJunkDoc)
   \<and> fst (Unlock refExt (Some (X25519Identity ''alice'')) exJunkDoc) \<noteq> None
   \<and> fst (Unlock refExt (Some (X25519Identity ''alice'')) exJunkDoc) \<noteq> Some ErrAccessDenied
   \<and> fst (Unlock refExt (Some (X25519Identity ''alice'')) exJunkDoc) \<noteq> Some ErrMissingMetadata"
  by (simp add: exJunkDoc_def MetadataKey_def Unlock_def refExt_def refUnmarshalMetadata_def)

text \<open>
  C4, as the code has it. For any two documents whose metadata block encodes and
  decodes into a recipient list, and any two private keys: if \<^verbatim>\<open>Unlock\<close> fails
  on both, whatever the cause (no recipients, an empty or corrupt wrapped key, a
  payload of the wrong length, a key that matches no entry), both calls return
  the same error, \<^verbatim>\<open>ErrAccessDenied\<close>, and leave their document as it is.
\<close>

theorem Unlock_failure_indistinguishable:
  assumes "map_of (RawData sf1) MetadataKey = Some mi1"
      and "yamlMarshal P mi1 = Inr mb1"
      and "yamlUnmarshalMetadata P mb1 = Inr meta1"
      and "map_of (RawData sf2) MetadataKey = Some mi2"
      and "yamlMarshal P mi2 = Inr mb2"
      and "yamlUnmarshalMetadata P mb2 = Inr meta2"
      and "fst (Unlock P (Some idt1) sf1) \<noteq> None"
      and "fst (Unlock P (Some idt2) sf2) \<noteq> None"
  shows "fst (Unlock P (Some idt1) sf1) = fst (Unlock P (Some idt2) sf2)
       \<and> Unlock P (Some idt1) sf1 = (Some ErrAccessDenied, sf1)
       \<and> Unlock P (Some idt2) sf2 = (Some ErrAccessDenied, sf2)"
proof -
  have u1: "Unlock P (Some idt1) sf1 = unlockLoop P idt1 (Recipients meta1) sf1"
    using assms(1-3) by (rule Unlock_decoded)
  have u2: "Unlock P (Some idt2) sf2 = unlockLoop P idt2 (Recipients meta2) sf2"
    using assms(4-6) by (rule Unlock_decoded)
  have "Unlock P (Some idt1) sf1 = (Some ErrAccessDenied, sf1)"
    using assms(7) unlockLoop_fails [of P idt1 "Recipients meta1" sf1] by (simp add: u1)
  moreover have "Unlock P (Some idt2) sf2 = (Some ErrAccessDenied, sf2)"
    using assms(8) unlockLoop_fails [of P idt2 "Recipients meta2" sf2] by (simp add: u2)
  ultimately show ?thesis by simp
qed

lemma exDoc_carol:
  "Unlock refExt (Some (X25519Identity ''carol'')) exDoc = (Some ErrAccessDenied, exDoc)"
  by (simp add: Unlock_def exDoc_meta refExt_def refUnmarshalMetadata_def DecryptDEK_def
      refAgeDecrypt_def HasPrefix_def)

lemma exDoc_no_recipients:
  "Unlock refExt (Some (X25519Identity ''alice''))
      (exDoc\<lparr>RawData := [(''_envseal'', VStrMap [(''recipients'', VSeq [])])]\<rparr>)
   = (Some ErrAccessDenied, exDoc\<lparr>RawData := [(''_envseal'', VStrMap [(''recipients'', VSeq [])])]\<rparr>)"
  by (simp add: Unlock_def MetadataKey_def refExt_def refUnmarshalMetadata_def)

theorem Unlock_failure_indistinguishable_witness:
  "map_of (RawData exDoc) MetadataKey
     = Some (VMeta \<lparr>Recipients =
            [\<lparr>Arg = ''age1bob'', Enc = ''garbage''\<rparr>,
             \<lparr>Arg = ''age1alice'', Enc = ''alice:'' @ exKey\<rparr>]\<rparr>)
   \<and> map_of (RawData (exDoc\<lparr>RawData := [(''_envseal'', VStrMap [(''recipients'', VSeq [])])]\<rparr>))
         MetadataKey = Some (VStrMap [(''recipients'', VSeq [])])
   \<and> yamlUnmarshalMetadata refExt (VStrMap [(''recipients'', VSeq [])]) = Inr \<lparr>Recipients = []\<rparr>
   \<and> fst (Unlock refExt (Some (X25519Identity ''carol'')) exDoc) \<noteq> None
   \<and> fst (Unlock refExt (Some (X25519Identity ''alice''))
            (exDoc\<lparr>RawData := [(''_envseal'', VStrMap [(''recipients'', VSeq [])])]\<rparr>)) \<noteq> None
   \<and> fst (Unlock refExt (Some (X25519Identity ''carol'')) exDoc)
       = fst (Unlock refExt (Some (X25519Identity ''alice''))
            (exDoc\<lparr>RawData := [(''_envseal'', VStrMap [(''recipients'', VSeq [])])]\<rparr>))"
proof -
  let ?meta = "\<lparr>Recipients =
            [\<lparr>Arg = ''age1bob'', Enc = ''garbage''\<rparr>,
             \<lparr>Arg = ''age1alice'', Enc = ''alice:'' @ exKey\<rparr>]\<rparr>"
  let ?doc2 = "exDoc\<lparr>RawData := [(''_envseal'', VStrMap [(''recipients'', VSeq [])])]\<rparr>"
  have m1: "yamlMarshal refExt (VMeta ?meta) = Inr (VMeta ?meta)"
    and u1: "yamlUnmarshalMetadata refExt (VMeta ?meta) = Inr ?meta"
    by (simp_all add: refExt_def refUnmarshalMetadata_def)
  have d2: "map_of (RawData ?doc2) MetadataKey = Some (VStrMap [(''recipients'', VSeq [])])"
    by (simp add: MetadataKey_def)
  have m2: "yamlMarshal refExt (VStrMap [(''recipients'', VSeq [])])
              = Inr (VStrMap [(''recipients'', VSeq [])])"
    and u2: "yamlUnmarshalMetadata refExt (VStrMap [(''recipients'', VSeq [])])
              = Inr \<lparr>Recipients = []\<rparr>"
    by (simp_all add: refExt_def refUnmarshalMetadata_def)
  have f1: "fst (Unlock refExt (Some (X25519Identity ''carol'')) exDoc) \<noteq> None"
    by (simp add: exDoc_carol)
  have f2: "fst (Unlock refExt (Some (X25519Identity ''alice'')) ?doc2) \<noteq> None"
    by (simp add: exDoc_no_recipients)
  from Unlock_failure_indistinguishable [OF exDoc_meta m1 u1 d2 m2 u2 f1 f2]
  have "fst (Unlock refExt (Some (X25519Identity ''carol'')) exDoc)
       = fst (Unlock refExt (Some (X25519Identity ''alice'')) ?doc2)"
    by simp
  with exDoc_meta d2 u2 f1 f2 show ?thesis by simp
qed

theorem Unlock_malformed_vs_wrong_key_counterexample:
  "map_of (RawData exMalformedDoc) MetadataKey \<noteq> None
   \<and> map_of (RawData exDoc) MetadataKey \<noteq> None
   \<and> fst (Unlock refExt (Some (X25519Identity ''carol'')) exMalformedDoc)
       = Some (ErrWrap ''error parsing metadata: %w'' []
                 (ErrNew ''yaml: cannot unmarshal into []config.Recipient''))
   \<and> fst (Unlock refExt (Some (X25519Identity ''carol'')) exDoc) = Some ErrAccessDenied
   \<and> fst (Unlock refExt (Some (X25519Identity ''carol'')) exMalformedDoc)
       \<noteq> fst (Unlock refExt (Some (X25519Identity ''carol'')) exDoc)"
  by (simp add: exDoc_carol exDoc_meta)
     (simp add: exMalformedDoc_def MetadataKey_def Unlock_def refExt_def
       refUnmarshalMetadata_def)

lemma wrapLoop_Args:
  "wrapLoop P dek keys acc rnd = (Inr rs, r) \<Longrightarrow> map Arg rs = map Arg acc @ keys"
proof (induction keys arbitrary: acc rnd)
  case Nil
  then show ?case by simp
next
  case (Cons k keys)
  then show ?case
    by (auto split: prod.splits sum.splits)
qed

lemma rotateRecipientsLocked_result:
  assumes "rotateRecipientsLocked P publicKeys sf rnd = (err, sf', rnd')"
  shows "(err \<noteq> None \<longrightarrow> sf' = sf)
       \<and> (err = None \<longrightarrow>
            (\<exists>rs. sf' = sf\<lparr>RawData :=
                          AList.update MetadataKey (VMeta \<lparr>Recipients = rs\<rparr>) (RawData sf)\<rparr>
                  \<and> map Arg rs = normalizeAndDedupe publicKeys))"
proof (cases "wrapLoop P (dekBytes sf) (normalizeAndDedupe publicKeys) [] rnd")
  case (Pair res r)
  show ?thesis
  proof (cases res)
    case (Inl e)
    with Pair assms show ?thesis
      by (auto simp: rotateRecipientsLocked_def Let_def split: if_splits)
  next
    case (Inr rs)
    with Pair have "map Arg rs = normalizeAndDedupe publicKeys"
      using wrapLoop_Args [of P "dekBytes sf" "normalizeAndDedupe publicKeys" "[]" rnd rs r]
      by simp
    with Pair Inr assms show ?thesis
      by (auto simp: rotateRecipientsLocked_def Let_def split: if_splits)
  qed
qed

lemma ensureSecretsMap_shape:
  "\<exists>res upd. \<forall>sf'. map_of (RawData sf') SecretsKey = map_of (RawData sf) SecretsKey \<longrightarrow>
      ensureSecretsMap c sf' =
        (res, case upd of
                None \<Rightarrow> sf'
              | Some v \<Rightarrow> sf'\<lparr>RawData := AList.update SecretsKey v (RawData sf')\<rparr>)"
proof (cases "map_of (RawData sf) SecretsKey")
  case None
  show ?thesis
    by (rule exI [of _ "if c then Inr (Some []) else Inr None"],
        rule exI [of _ "if c then Some (VStrMap []) else None"])
       (simp add: ensureSecretsMap_def None)
next
  case (Some v)
  show ?thesis
  proof (cases v)
    case VNil
    show ?thesis
      by (rule exI [of _ "if c then Inr (Some []) else Inr None"],
          rule exI [of _ "if c then Some (VStrMap []) else None"])
         (simp add: ensureSecretsMap_def Some VNil)
  next
    case (VStrMap m)
    show ?thesis
      by (rule exI [of _ "Inr (Some m)"], rule exI [of _ None])
         (simp add: ensureSecretsMap_def Some VStrMap)
  next
    case (VAnyMap legacy)
    show ?thesis
    proof (cases "convertLegacy (mapEntries legacy) []")
      case (Inl e)
      show ?thesis
        by (rule exI [of _ "Inl e"], rule exI [of _ None])
           (simp add: ensureSecretsMap_def Some VAnyMap Inl)
    next
      case (Inr converted)
      show ?thesis
        by (rule exI [of _ "Inr (Some converted)"], rule exI [of _ "Some (VStrMap converted)"])
           (simp add: ensureSecretsMap_def Some VAnyMap Inr)
    qed
  next
    case (VStr x)
    show ?thesis
      by (rule exI [of _ "Inl (ErrNew ''invalid secrets format'')"], rule exI [of _ None])
         (simp add: ensureSecretsMap_def Some VStr)
  next
    case (VInt x)
    show ?thesis
      by (rule exI [of _ "Inl (ErrNew ''invalid secrets format'')"], rule exI [of _ None])
         (simp add: ensureSecretsMap_def Some VInt)
  next
    case (VBool x)
    show ?thesis
      by (rule exI [of _ "Inl (ErrNew ''invalid secrets format'')"], rule exI [of _ None])
         (simp add: ensureSecretsMap_def Some VBool)
  next
    case (VSeq x)
    show ?thesis
      by (rule exI [of _ "Inl (ErrNew ''invalid secrets format'')"], rule exI [of _ None])
         (simp add: ensureSecretsMap_def Some VSeq)
  next
    case (VMeta x)
    show ?thesis
      by (rule exI [of _ "Inl (ErrNew ''invalid secrets format'')"], rule exI [of _ None])
         (simp add: ensureSecretsMap_def Some VMeta)
  qed
qed

lemma ensureSecretsMap_frame:
  assumes "decryptedDEK sf' = decryptedDEK sf"
      and "heap sf' = heap sf"
      and "\<forall>k. k \<noteq> MetadataKey \<longrightarrow> map_of (RawData sf') k = map_of (RawData sf) k"
  shows "fst (ensureSecretsMap c sf') = fst (ensureSecretsMap c sf)"
    and "decryptedDEK (snd (ensureSecretsMap c sf')) = decryptedDEK (snd (ensureSecretsMap c sf))"
    and "heap (snd (ensureSecretsMap c sf')) = heap (snd (ensureSecretsMap c sf))"
    and "\<forall>k. k \<noteq> MetadataKey \<longrightarrow>
           map_of (RawData (snd (ensureSecretsMap c sf'))) k
             = map_of (RawData (snd (ensureSecretsMap c sf))) k"
proof -
  have s: "map_of (RawData sf') SecretsKey = map_of (RawData sf) SecretsKey"
    using assms(3) keys_distinct by simp
  obtain res upd where
    sh: "\<And>x. map_of (RawData x) SecretsKey = map_of (RawData sf) SecretsKey \<Longrightarrow>
      ensureSecretsMap c x =
        (res, case upd of
                None \<Rightarrow> x
              | Some v \<Rightarrow> x\<lparr>RawData := AList.update SecretsKey v (RawData x)\<rparr>)"
    using ensureSecretsMap_shape [of sf c] by blast
  note a = sh [of sf, OF refl] and b = sh [of sf', OF s]
  show "fst (ensureSecretsMap c sf') = fst (ensureSecretsMap c sf)"
    by (simp add: a b)
  show "decryptedDEK (snd (ensureSecretsMap c sf')) = decryptedDEK (snd (ensureSecretsMap c sf))"
    using assms(1) by (cases upd) (simp_all add: a b)
  show "heap (snd (ensureSecretsMap c sf')) = heap (snd (ensureSecretsMap c sf))"
    using assms(2) by (cases upd) (simp_all add: a b)
  show "\<forall>k. k \<noteq> MetadataKey \<longrightarrow>
           map_of (RawData (snd (ensureSecretsMap c sf'))) k
             = map_of (RawData (snd (ensureSecretsMap c sf))) k"
    using assms(3) by (cases upd) (simp_all add: a b update_conv')
qed

lemma dekBytes_frame:
  "decryptedDEK sf' = decryptedDEK sf \<Longrightarrow> heap sf' = heap sf \<Longrightarrow> dekBytes sf' = dekBytes sf"
  by (simp add: dekBytes_def split: option.splits)

lemma GetSecret_unfold:
  assumes "decryptedDEK sf \<noteq> None"
      and "TrimSpace key \<noteq> []"
      and "TrimSpace key \<noteq> MetadataKey"
      and "TrimSpace key \<noteq> SecretsKey"
      and "ensureSecretsMap False sf = (res, sf1)"
  shows "fst (GetSecret P key sf) =
           (case (case res of Inr (Some secrets) \<Rightarrow> map_of secrets (TrimSpace key) | _ \<Rightarrow> None) of
              Some v \<Rightarrow> decryptAnyLocked P sf1 v
            | None \<Rightarrow>
                (case map_of (RawData sf1) (TrimSpace key) of
                   Some v \<Rightarrow> decryptAnyLocked P sf1 v
                 | None \<Rightarrow> Inl ErrKeyNotFound))"
proof -
  obtain a where a: "decryptedDEK sf = Some a"
    using assms(1) by auto
  have "GetSecret P key sf =
          (case (case res of Inr (Some secrets) \<Rightarrow> map_of secrets (TrimSpace key) | _ \<Rightarrow> None) of
             Some v \<Rightarrow> (decryptAnyLocked P sf1 v, sf1)
           | None \<Rightarrow>
               (case map_of (RawData sf1) (TrimSpace key) of
                  Some v \<Rightarrow> (decryptAnyLocked P sf1 v, sf1)
                | None \<Rightarrow> (Inl ErrKeyNotFound, sf1)))"
    using assms(2-5) by (simp add: GetSecret_def Let_def a)
  then show ?thesis
    by (simp split: option.splits)
qed

lemma GetSecret_frame:
  assumes "decryptedDEK sf' = decryptedDEK sf"
      and "heap sf' = heap sf"
      and "\<forall>k. k \<noteq> MetadataKey \<longrightarrow> map_of (RawData sf') k = map_of (RawData sf) k"
  shows "fst (GetSecret P key sf') = fst (GetSecret P key sf)"
proof (cases "decryptedDEK sf = None \<or> TrimSpace key = [] \<or> TrimSpace key = MetadataKey
                \<or> TrimSpace key = SecretsKey")
  case True
  then show ?thesis
    using assms(1) by (auto simp: GetSecret_def Let_def)
next
  case False
  note f = ensureSecretsMap_frame [OF assms, of False]
  obtain res sf1 where e: "ensureSecretsMap False sf = (res, sf1)"
    by (cases "ensureSecretsMap False sf")
  obtain res' sf1' where e': "ensureSecretsMap False sf' = (res', sf1')"
    by (cases "ensureSecretsMap False sf'")
  have r: "res' = res" using f(1) e e' by simp
  have d: "dekBytes sf1' = dekBytes sf1"
    using f(2,3) e e' by (intro dekBytes_frame) simp_all
  have v: "decryptAnyLocked P sf1' = decryptAnyLocked P sf1"
    unfolding decryptAnyLocked_def d by (rule refl)
  have k: "map_of (RawData sf1') (TrimSpace key) = map_of (RawData sf1) (TrimSpace key)"
    using False f(4) e e' by simp
  have "fst (GetSecret P key sf') =
           (case (case res' of Inr (Some secrets) \<Rightarrow> map_of secrets (TrimSpace key) | _ \<Rightarrow> None) of
              Some v \<Rightarrow> decryptAnyLocked P sf1' v
            | None \<Rightarrow>
                (case map_of (RawData sf1') (TrimSpace key) of
                   Some v \<Rightarrow> decryptAnyLocked P sf1' v
                 | None \<Rightarrow> Inl ErrKeyNotFound))"
    using False assms(1) by (intro GetSecret_unfold [OF _ _ _ _ e']) simp_all
  also have "\<dots> = fst (GetSecret P key sf)"
    unfolding r v k using False by (intro GetSecret_unfold [OF _ _ _ _ e, symmetric]) simp_all
  finally show ?thesis .
qed

text \<open>
  C2. \<^verbatim>\<open>RotateRecipients\<close> changes nothing but the metadata block: the key
  reference, the key bytes and every other entry of the document are the same
  before and after, on success and on failure, so the key held before the call
  decrypts every stored value to what it was (\<^verbatim>\<open>GetSecret\<close> returns the same for
  every name). On failure the file is unchanged; on success the metadata block
  holds one entry for each of the normalized, deduplicated and sorted target keys.
\<close>

theorem RotateRecipients_frame:
  assumes "RotateRecipients P publicKeys sf rnd = (err, sf', rnd')"
  shows "decryptedDEK sf' = decryptedDEK sf
       \<and> heap sf' = heap sf
       \<and> dekBytes sf' = dekBytes sf
       \<and> (\<forall>k. k \<noteq> MetadataKey \<longrightarrow> map_of (RawData sf') k = map_of (RawData sf) k)
       \<and> (\<forall>v. decryptAnyLocked P sf' v = decryptAnyLocked P sf v)
       \<and> (\<forall>key. fst (GetSecret P key sf') = fst (GetSecret P key sf))
       \<and> (err \<noteq> None \<longrightarrow> sf' = sf)
       \<and> (err = None \<longrightarrow>
            IsUnlocked sf \<and> normalizeAndDedupe publicKeys \<noteq> []
            \<and> (\<exists>rs. map_of (RawData sf') MetadataKey = Some (VMeta \<lparr>Recipients = rs\<rparr>)
                   \<and> map Arg rs = normalizeAndDedupe publicKeys))"
proof -
  have "sf' = sf \<and> err \<noteq> None
        \<or> (err = None \<and> IsUnlocked sf \<and> normalizeAndDedupe publicKeys \<noteq> []
            \<and> (\<exists>rs. sf' = sf\<lparr>RawData :=
                          AList.update MetadataKey (VMeta \<lparr>Recipients = rs\<rparr>) (RawData sf)\<rparr>
                  \<and> map Arg rs = normalizeAndDedupe publicKeys))"
  proof (cases "decryptedDEK sf = None")
    case True
    with assms show ?thesis by (auto simp: RotateRecipients_def)
  next
    case False
    with assms have r: "rotateRecipientsLocked P publicKeys sf rnd = (err, sf', rnd')"
      by (simp add: RotateRecipients_def)
    have ne: "err = None \<Longrightarrow> normalizeAndDedupe publicKeys \<noteq> []"
      using r by (auto simp: rotateRecipientsLocked_def Let_def)
    from rotateRecipientsLocked_result [OF r] False ne show ?thesis
      by (cases err) (auto simp: IsUnlocked_def)
  qed
  then have fr: "decryptedDEK sf' = decryptedDEK sf" "heap sf' = heap sf"
    "\<forall>k. k \<noteq> MetadataKey \<longrightarrow> map_of (RawData sf') k = map_of (RawData sf) k"
    and res: "err \<noteq> None \<longrightarrow> sf' = sf"
    "err = None \<longrightarrow>
            IsUnlocked sf \<and> normalizeAndDedupe publicKeys \<noteq> []
            \<and> (\<exists>rs. map_of (RawData sf') MetadataKey = Some (VMeta \<lparr>Recipients = rs\<rparr>)
                   \<and> map Arg rs = normalizeAndDedupe publicKeys)"
    by (auto simp: update_conv')
  have d: "dekBytes sf' = dekBytes sf"
    using fr(1,2) by (rule dekBytes_frame)
  have "\<forall>v. decryptAnyLocked P sf' v = decryptAnyLocked P sf v"
    unfolding decryptAnyLocked_def d by simp
  moreover have "\<forall>key. fst (GetSecret P key sf') = fst (GetSecret P key sf)"
    by (intro allI GetSecret_frame fr)
  ultimately show ?thesis
    using fr res d by blast
qed

lemma ex_normalize:
  "normalizeAndDedupe [''age1bob'', '' age1alice '', ''age1bob''] = [''age1alice'', ''age1bob'']"
  by code_simp

lemma exUnlocked_dek: "dekBytes exUnlocked = exKey" "decryptedDEK exUnlocked = Some 0"
  by (simp_all add: exUnlocked_def dekBytes_def)

lemma ex_rewrap:
  "RotateRecipients refExt [''age1bob'', '' age1alice '', ''age1bob''] exUnlocked []
   = (None,
      exUnlocked\<lparr>RawData :=
        [(''secrets'', VStrMap [(''K'', VStr ''ENC[age,chacha20,nnnnnnnnnnnnvkkkknnnnnnnnnnnn]'')]),
         (''_envseal'',
          VMeta \<lparr>Recipients =
            [\<lparr>Arg = ''age1alice'', Enc = ''alice:'' @ exKey\<rparr>,
             \<lparr>Arg = ''age1bob'', Enc = ''bob:'' @ exKey\<rparr>]\<rparr>)]\<rparr>,
      [])"
  by (simp add: RotateRecipients_def rotateRecipientsLocked_def ex_normalize exUnlocked_dek
      EncryptDEK_def validateDEK_def dekSize_def exKey_length parseRecipients_def
      refExt_def refParseRecipient_def refAgeEncrypt_def HasPrefix_def MetadataKey_def)
     (simp add: exUnlocked_def exDoc_def)

theorem RotateRecipients_frame_witness:
  "RotateRecipients refExt [''age1bob'', '' age1alice '', ''age1bob''] exUnlocked []
   = (None,
      exUnlocked\<lparr>RawData :=
        [(''secrets'', VStrMap [(''K'', VStr ''ENC[age,chacha20,nnnnnnnnnnnnvkkkknnnnnnnnnnnn]'')]),
         (''_envseal'',
          VMeta \<lparr>Recipients =
            [\<lparr>Arg = ''age1alice'', Enc = ''alice:'' @ exKey\<rparr>,
             \<lparr>Arg = ''age1bob'', Enc = ''bob:'' @ exKey\<rparr>]\<rparr>)]\<rparr>,
      [])
   \<and> IsUnlocked exUnlocked
   \<and> dekBytes (exUnlocked\<lparr>RawData :=
        [(''secrets'', VStrMap [(''K'', VStr ''ENC[age,chacha20,nnnnnnnnnnnnvkkkknnnnnnnnnnnn]'')]),
         (''_envseal'',
          VMeta \<lparr>Recipients =
            [\<lparr>Arg = ''age1alice'', Enc = ''alice:'' @ exKey\<rparr>,
             \<lparr>Arg = ''age1bob'', Enc = ''bob:'' @ exKey\<rparr>]\<rparr>)]\<rparr>) = exKey
   \<and> fst (GetSecret refExt ''K'' (exUnlocked\<lparr>RawData :=
        [(''secrets'', VStrMap [(''K'', VStr ''ENC[age,chacha20,nnnnnnnnnnnnvkkkknnnnnnnnnnnn]'')]),
         (''_envseal'',
          VMeta \<lparr>Recipients =
            [\<lparr>Arg = ''age1alice'', Enc = ''alice:'' @ exKey\<rparr>,
             \<lparr>Arg = ''age1bob'', Enc = ''bob:'' @ exKey\<rparr>]\<rparr>)]\<rparr>))
       = fst (GetSecret refExt ''K'' exUnlocked)"
  using RotateRecipients_frame [OF ex_rewrap] exUnlocked_dek ex_rewrap
  by simp

lemma secretsEntry_update:
  "secretsEntry P sf (k, v) out =
     AList.update k
       (case decryptAnyLocked P sf v of
          Inr val \<Rightarrow> val
        | Inl err \<Rightarrow> (case v of VStr s \<Rightarrow> s | _ \<Rightarrow> sprintV P v)) out"
  by (simp add: secretsEntry_def split: sum.splits any.splits)

lemma fold_secretsEntry:
  assumes "distinct (map fst xs)"
  shows "map_of (fold (secretsEntry P sf) xs out) k =
           (case map_of xs k of
              Some v \<Rightarrow>
                Some (case decryptAnyLocked P sf v of
                        Inr val \<Rightarrow> val
                      | Inl err \<Rightarrow> (case v of VStr s \<Rightarrow> s | _ \<Rightarrow> sprintV P v))
            | None \<Rightarrow> map_of out k)"
  using assms
proof (induction xs arbitrary: out)
  case Nil
  then show ?case by simp
next
  case (Cons x xs)
  obtain k0 v0 where x: "x = (k0, v0)" by (cases x)
  have d: "distinct (map fst xs)" and n: "k0 \<notin> fst ` set xs"
    using Cons.prems x by auto
  have none: "map_of xs k0 = None"
    using n by (simp add: map_of_eq_None_iff)
  show ?case
  proof (cases "k = k0")
    case True
    then show ?thesis
      using Cons.IH [OF d] none
      by (simp add: x secretsEntry_update update_conv' split: option.splits)
  next
    case False
    then show ?thesis
      using Cons.IH [OF d]
      by (simp add: x secretsEntry_update update_conv' split: option.splits)
  qed
qed

lemma legacyEntry_map_of:
  "map_of (legacyEntry P sf (k0, v0) out) k =
     (if k = k0 \<and> k0 \<noteq> MetadataKey \<and> k0 \<noteq> SecretsKey \<and> map_of out k0 = None
      then (case v0 of
              VStr s \<Rightarrow>
                Some (case decryptIfNeeded P s (dekBytes sf) of Inr val \<Rightarrow> val | Inl err \<Rightarrow> s)
            | _ \<Rightarrow> None)
      else map_of out k)"
  by (auto simp: legacyEntry_def update_conv' split: sum.splits any.splits)

lemma fold_legacyEntry:
  assumes "distinct (map fst xs)"
  shows "map_of (fold (legacyEntry P sf) xs out) k =
           (case map_of out k of
              Some x \<Rightarrow> Some x
            | None \<Rightarrow>
                (if k = MetadataKey \<or> k = SecretsKey then None
                 else (case map_of xs k of
                         Some (VStr s) \<Rightarrow>
                           Some (case decryptIfNeeded P s (dekBytes sf) of
                                   Inr val \<Rightarrow> val
                                 | Inl err \<Rightarrow> s)
                       | _ \<Rightarrow> None)))"
  using assms
proof (induction xs arbitrary: out)
  case Nil
  then show ?case by (simp split: option.splits)
next
  case (Cons x xs)
  obtain k0 v0 where x: "x = (k0, v0)" by (cases x)
  have d: "distinct (map fst xs)" and n: "k0 \<notin> fst ` set xs"
    using Cons.prems x by auto
  have none: "map_of xs k0 = None"
    using n by (simp add: map_of_eq_None_iff)
  have "map_of (fold (legacyEntry P sf) (x # xs) out) k
        = map_of (fold (legacyEntry P sf) xs (legacyEntry P sf (k0, v0) out)) k"
    by (simp add: x)
  also have "\<dots> =
           (case map_of (legacyEntry P sf (k0, v0) out) k of
              Some x \<Rightarrow> Some x
            | None \<Rightarrow>
                (if k = MetadataKey \<or> k = SecretsKey then None
                 else (case map_of xs k of
                         Some (VStr s) \<Rightarrow>
                           Some (case decryptIfNeeded P s (dekBytes sf) of
                                   Inr val \<Rightarrow> val
                                 | Inl err \<Rightarrow> s)
                       | _ \<Rightarrow> None)))"
    by (rule Cons.IH [OF d])
  also have "\<dots> =
           (case map_of out k of
              Some x \<Rightarrow> Some x
            | None \<Rightarrow>
                (if k = MetadataKey \<or> k = SecretsKey then None
                 else (case map_of ((k0, v0) # xs) k of
                         Some (VStr s) \<Rightarrow>
                           Some (case decryptIfNeeded P s (dekBytes sf) of
                                   Inr val \<Rightarrow> val
                                 | Inl err \<Rightarrow> s)
                       | _ \<Rightarrow> None)))"
    using none
    by (cases "k = k0") (auto simp: legacyEntry_map_of split: option.splits any.splits)
  finally show ?case unfolding x .
qed

lemma ensureSecretsMap_keeps:
  "decryptedDEK (snd (ensureSecretsMap c sf)) = decryptedDEK sf"
  "heap (snd (ensureSecretsMap c sf)) = heap sf"
  "k \<noteq> SecretsKey \<Longrightarrow> map_of (RawData (snd (ensureSecretsMap c sf))) k = map_of (RawData sf) k"
proof -
  obtain res upd where
    sh: "ensureSecretsMap c sf =
        (res, case upd of
                None \<Rightarrow> sf
              | Some v \<Rightarrow> sf\<lparr>RawData := AList.update SecretsKey v (RawData sf)\<rparr>)"
    using ensureSecretsMap_shape [of sf c] by blast
  show "decryptedDEK (snd (ensureSecretsMap c sf)) = decryptedDEK sf"
    by (cases upd) (simp_all add: sh)
  show "heap (snd (ensureSecretsMap c sf)) = heap sf"
    by (cases upd) (simp_all add: sh)
  show "k \<noteq> SecretsKey \<Longrightarrow> map_of (RawData (snd (ensureSecretsMap c sf))) k = map_of (RawData sf) k"
    by (cases upd) (simp_all add: sh update_conv')
qed

lemma mapEntries_props:
  "distinct (map fst (mapEntries m))" "map_of (mapEntries m) = map_of m"
  by (simp_all add: mapEntries_def distinct_clearjunk map_of_clearjunk)

lemma GetAllSecrets_unfold:
  assumes "decryptedDEK sf \<noteq> None"
  shows "GetAllSecrets P sf =
     (Inr (fold (legacyEntry P (snd (ensureSecretsMap False sf)))
             (mapEntries (RawData (snd (ensureSecretsMap False sf))))
             (case fst (ensureSecretsMap False sf) of
                Inr (Some secrets) \<Rightarrow>
                  fold (secretsEntry P (snd (ensureSecretsMap False sf))) (mapEntries secrets) []
              | _ \<Rightarrow> [])),
      snd (ensureSecretsMap False sf))"
proof -
  obtain a where a: "decryptedDEK sf = Some a"
    using assms by auto
  obtain res sf1 where e: "ensureSecretsMap False sf = (res, sf1)"
    by (cases "ensureSecretsMap False sf")
  have s: "snd (ensureSecretsMap False sf) = sf1" "fst (ensureSecretsMap False sf) = res"
    by (simp_all add: e)
  show ?thesis
    unfolding s by (simp add: GetAllSecrets_def a e Let_def)
qed

text \<open>
  C7. On an unlocked file \<^verbatim>\<open>GetAllSecrets\<close> never returns an error. Every entry
  of the \<^verbatim>\<open>secrets\<close> map is in the result: with its plaintext when it is
  not sealed or unseals, and otherwise with the stored value itself (the stored
  string, or the formatted value when it is not a string). Every top-level string
  entry that is not reserved and not also in the \<^verbatim>\<open>secrets\<close> map is in the
  result in the same way.
\<close>

theorem GetAllSecrets_never_fails:
  assumes "IsUnlocked sf"
  shows "\<exists>out. GetAllSecrets P sf = (Inr out, snd (ensureSecretsMap False sf))
     \<and> (\<forall>secrets k v.
           fst (ensureSecretsMap False sf) = Inr (Some secrets) \<and> map_of secrets k = Some v \<longrightarrow>
           map_of out k =
             Some (case decryptAnyLocked P sf v of
                     Inr val \<Rightarrow> val
                   | Inl err \<Rightarrow> (case v of VStr s \<Rightarrow> s | _ \<Rightarrow> sprintV P v)))
     \<and> (\<forall>secrets k s err.
           fst (ensureSecretsMap False sf) = Inr (Some secrets) \<and> map_of secrets k = Some (VStr s)
           \<and> decryptIfNeeded P s (dekBytes sf) = Inl err \<longrightarrow>
           map_of out k = Some s)
     \<and> (\<forall>k s.
           k \<noteq> MetadataKey \<and> k \<noteq> SecretsKey
           \<and> (\<forall>secrets. fst (ensureSecretsMap False sf) = Inr (Some secrets) \<longrightarrow>
                 map_of secrets k = None)
           \<and> map_of (RawData sf) k = Some (VStr s) \<longrightarrow>
           map_of out k =
             Some (case decryptIfNeeded P s (dekBytes sf) of Inr val \<Rightarrow> val | Inl err \<Rightarrow> s))"
proof -
  let ?sf1 = "snd (ensureSecretsMap False sf)"
  let ?res = "fst (ensureSecretsMap False sf)"
  let ?out1 = "case ?res of
                Inr (Some secrets) \<Rightarrow> fold (secretsEntry P ?sf1) (mapEntries secrets) []
              | _ \<Rightarrow> []"
  let ?out = "fold (legacyEntry P ?sf1) (mapEntries (RawData ?sf1)) ?out1"
  have u: "decryptedDEK sf \<noteq> None"
    using assms by (simp add: IsUnlocked_def)
  have g: "GetAllSecrets P sf = (Inr ?out, ?sf1)"
    using u by (rule GetAllSecrets_unfold)
  have d: "dekBytes ?sf1 = dekBytes sf"
    by (intro dekBytes_frame ensureSecretsMap_keeps)
  have v: "decryptAnyLocked P ?sf1 = decryptAnyLocked P sf"
    unfolding decryptAnyLocked_def d by (rule refl)
  have out: "\<And>k. map_of ?out k =
           (case map_of ?out1 k of
              Some x \<Rightarrow> Some x
            | None \<Rightarrow>
                (if k = MetadataKey \<or> k = SecretsKey then None
                 else (case map_of (RawData ?sf1) k of
                         Some (VStr s) \<Rightarrow>
                           Some (case decryptIfNeeded P s (dekBytes sf) of
                                   Inr val \<Rightarrow> val
                                 | Inl err \<Rightarrow> s)
                       | _ \<Rightarrow> None)))"
    using fold_legacyEntry [OF mapEntries_props(1), of P ?sf1 "RawData ?sf1" ?out1]
    unfolding mapEntries_props(2) d .
  have sec: "\<And>secrets k v. ?res = Inr (Some secrets) \<Longrightarrow> map_of secrets k = Some v \<Longrightarrow>
           map_of ?out1 k =
             Some (case decryptAnyLocked P sf v of
                     Inr val \<Rightarrow> val
                   | Inl err \<Rightarrow> (case v of VStr s \<Rightarrow> s | _ \<Rightarrow> sprintV P v))"
  proof -
    fix secrets k v
    assume r: "?res = Inr (Some secrets)" and m: "map_of secrets k = Some v"
    have "map_of (fold (secretsEntry P ?sf1) (mapEntries secrets) []) k =
             Some (case decryptAnyLocked P sf v of
                     Inr val \<Rightarrow> val
                   | Inl err \<Rightarrow> (case v of VStr s \<Rightarrow> s | _ \<Rightarrow> sprintV P v))"
      using fold_secretsEntry [OF mapEntries_props(1), of P ?sf1 secrets "[]" k]
      unfolding mapEntries_props(2) v by (simp add: m)
    then show "map_of ?out1 k =
             Some (case decryptAnyLocked P sf v of
                     Inr val \<Rightarrow> val
                   | Inl err \<Rightarrow> (case v of VStr s \<Rightarrow> s | _ \<Rightarrow> sprintV P v))"
      by (simp add: r)
  qed
  have nosec: "\<And>k. (\<forall>secrets. ?res = Inr (Some secrets) \<longrightarrow> map_of secrets k = None) \<Longrightarrow>
           map_of ?out1 k = None"
  proof -
    fix k
    assume h: "\<forall>secrets. ?res = Inr (Some secrets) \<longrightarrow> map_of secrets k = None"
    show "map_of ?out1 k = None"
    proof (cases ?res)
      case (Inl e)
      then show ?thesis by simp
    next
      case (Inr opt)
      show ?thesis
      proof (cases opt)
        case None
        with Inr show ?thesis by simp
      next
        case (Some secrets)
        have "map_of secrets k = None"
          using h Inr Some by simp
        then have "map_of (fold (secretsEntry P ?sf1) (mapEntries secrets) []) k = None"
          using fold_secretsEntry [OF mapEntries_props(1), of P ?sf1 secrets "[]" k]
          unfolding mapEntries_props(2) by simp
        with Inr Some show ?thesis by simp
      qed
    qed
  qed
  have c1: "\<forall>secrets k v.
           ?res = Inr (Some secrets) \<and> map_of secrets k = Some v \<longrightarrow>
           map_of ?out k =
             Some (case decryptAnyLocked P sf v of
                     Inr val \<Rightarrow> val
                   | Inl err \<Rightarrow> (case v of VStr s \<Rightarrow> s | _ \<Rightarrow> sprintV P v))"
  proof (intro allI impI)
    fix secrets k v
    assume h: "?res = Inr (Some secrets) \<and> map_of secrets k = Some v"
    then have "map_of ?out1 k =
             Some (case decryptAnyLocked P sf v of
                     Inr val \<Rightarrow> val
                   | Inl err \<Rightarrow> (case v of VStr s \<Rightarrow> s | _ \<Rightarrow> sprintV P v))"
      using sec by blast
    then show "map_of ?out k =
             Some (case decryptAnyLocked P sf v of
                     Inr val \<Rightarrow> val
                   | Inl err \<Rightarrow> (case v of VStr s \<Rightarrow> s | _ \<Rightarrow> sprintV P v))"
      by (simp only: out option.case)
  qed
  have c2: "\<forall>secrets k s err.
           ?res = Inr (Some secrets) \<and> map_of secrets k = Some (VStr s)
           \<and> decryptIfNeeded P s (dekBytes sf) = Inl err \<longrightarrow>
           map_of ?out k = Some s"
  proof (intro allI impI)
    fix secrets k s err
    assume h: "?res = Inr (Some secrets) \<and> map_of secrets k = Some (VStr s)
           \<and> decryptIfNeeded P s (dekBytes sf) = Inl err"
    then have "map_of ?out k =
             Some (case decryptAnyLocked P sf (VStr s) of
                     Inr val \<Rightarrow> val
                   | Inl err \<Rightarrow> (case VStr s of VStr s \<Rightarrow> s | _ \<Rightarrow> sprintV P (VStr s)))"
      using c1 by blast
    then show "map_of ?out k = Some s"
      using h by (simp add: decryptAnyLocked_def)
  qed
  have c3: "\<forall>k s.
           k \<noteq> MetadataKey \<and> k \<noteq> SecretsKey
           \<and> (\<forall>secrets. ?res = Inr (Some secrets) \<longrightarrow> map_of secrets k = None)
           \<and> map_of (RawData sf) k = Some (VStr s) \<longrightarrow>
           map_of ?out k =
             Some (case decryptIfNeeded P s (dekBytes sf) of Inr val \<Rightarrow> val | Inl err \<Rightarrow> s)"
  proof (intro allI impI)
    fix k s
    assume h: "k \<noteq> MetadataKey \<and> k \<noteq> SecretsKey
           \<and> (\<forall>secrets. ?res = Inr (Some secrets) \<longrightarrow> map_of secrets k = None)
           \<and> map_of (RawData sf) k = Some (VStr s)"
    then have n: "map_of ?out1 k = None"
      using nosec by blast
    have r: "map_of (RawData ?sf1) k = Some (VStr s)"
      using h by (simp add: ensureSecretsMap_keeps)
    show "map_of ?out k =
             Some (case decryptIfNeeded P s (dekBytes sf) of Inr val \<Rightarrow> val | Inl err \<Rightarrow> s)"
      using h by (simp add: out n r)
  qed
  from g c1 c2 c3 show ?thesis by blast
qed

lemma exMixed_secrets:
  "fst (ensureSecretsMap False exMixed)
     = Inr (Some [(''K'', VStr ''ENC[age,chacha20,nnnnnnnnnnnnvkkkknnnnnnnnnnnn]''),
                  (''BAD'', VStr ''ENC[age,chacha20,xx]''),
                  (''N'', VInt 5)])"
  by (simp add: ensureSecretsMap_def exMixed_def SecretsKey_def)

lemma exMixed_dek: "dekBytes exMixed = exKey" "IsUnlocked exMixed"
  by (simp_all add: exMixed_def exUnlocked_def dekBytes_def IsUnlocked_def)

lemma ex_cut_short:
  "decryptIfNeeded refExt ''ENC[age,chacha20,xx]'' exKey = Inl (ErrNew errCiphertextShort)"
  by (simp add: decryptIfNeeded_def HasPrefix_def HasSuffix_def encPrefix_def encSuffix_def
      DecryptValue_def validateDEK_def dekSize_def exKey_length chacha20poly1305_New_def
      refExt_def NonceSize_def)

theorem GetAllSecrets_never_fails_witness:
  "IsUnlocked exMixed
   \<and> fst (ensureSecretsMap False exMixed)
       = Inr (Some [(''K'', VStr ''ENC[age,chacha20,nnnnnnnnnnnnvkkkknnnnnnnnnnnn]''),
                    (''BAD'', VStr ''ENC[age,chacha20,xx]''),
                    (''N'', VInt 5)])
   \<and> decryptIfNeeded refExt ''ENC[age,chacha20,xx]'' (dekBytes exMixed)
       = Inl (ErrNew errCiphertextShort)
   \<and> (\<exists>out. fst (GetAllSecrets refExt exMixed) = Inr out
          \<and> map_of out ''BAD'' = Some ''ENC[age,chacha20,xx]''
          \<and> map_of out ''N'' = Some ''<value>''
          \<and> map_of out ''OLD'' = Some ''plain'')"
proof -
  obtain out where
    g: "GetAllSecrets refExt exMixed = (Inr out, snd (ensureSecretsMap False exMixed))"
    and c1: "\<forall>secrets k v.
           fst (ensureSecretsMap False exMixed) = Inr (Some secrets) \<and> map_of secrets k = Some v \<longrightarrow>
           map_of out k =
             Some (case decryptAnyLocked refExt exMixed v of
                     Inr val \<Rightarrow> val
                   | Inl err \<Rightarrow> (case v of VStr s \<Rightarrow> s | _ \<Rightarrow> sprintV refExt v))"
    and c2: "\<forall>secrets k s err.
           fst (ensureSecretsMap False exMixed) = Inr (Some secrets) \<and> map_of secrets k = Some (VStr s)
           \<and> decryptIfNeeded refExt s (dekBytes exMixed) = Inl err \<longrightarrow>
           map_of out k = Some s"
    and c3: "\<forall>k s.
           k \<noteq> MetadataKey \<and> k \<noteq> SecretsKey
           \<and> (\<forall>secrets. fst (ensureSecretsMap False exMixed) = Inr (Some secrets) \<longrightarrow>
                 map_of secrets k = None)
           \<and> map_of (RawData exMixed) k = Some (VStr s) \<longrightarrow>
           map_of out k =
             Some (case decryptIfNeeded refExt s (dekBytes exMixed) of
                     Inr val \<Rightarrow> val | Inl err \<Rightarrow> s)"
    using GetAllSecrets_never_fails [OF exMixed_dek(2), of refExt] by blast
  have short: "decryptIfNeeded refExt ''ENC[age,chacha20,xx]'' (dekBytes exMixed)
       = Inl (ErrNew errCiphertextShort)"
    by (simp add: exMixed_dek ex_cut_short)
  have bad: "map_of out ''BAD'' = Some ''ENC[age,chacha20,xx]''"
    using c2 [rule_format, of _ "''BAD''" "''ENC[age,chacha20,xx]''" "ErrNew errCiphertextShort"]
      exMixed_secrets short
    by simp
  have n: "map_of out ''N'' = Some ''<value>''"
    using c1 [rule_format, of _ "''N''" "VInt 5"] exMixed_secrets
    by (simp add: decryptAnyLocked_def refExt_def refSprintV_def)
  have old: "map_of out ''OLD'' = Some ''plain''"
    using c3 [rule_format, of "''OLD''" "''plain''"] exMixed_secrets
    by (simp add: MetadataKey_def SecretsKey_def exMixed_def decryptIfNeeded_def HasPrefix_def
        encPrefix_def)
  from g bad n old exMixed_dek exMixed_secrets short show ?thesis
    by simp
qed

lemma resealLoop_error:
  "resealLoop P kvs sf rnd = (Some err, sf', r) \<Longrightarrow>
   \<exists>k e. err = ErrWrap ''failed to re-encrypt %s: %w'' [VStr k] e"
proof (induction kvs arbitrary: sf rnd)
  case Nil
  then show ?case by simp
next
  case (Cons kv kvs)
  obtain k v where kv: "kv = (k, v)" by (cases kv)
  obtain e1 sf1 r1 where s: "SetSecret P k v sf rnd = (e1, sf1, r1)"
    by (cases "SetSecret P k v sf rnd")
  show ?case
  proof (cases e1)
    case None
    with Cons.prems kv s have "resealLoop P kvs sf1 r1 = (Some err, sf', r)"
      by simp
    then show ?thesis by (rule Cons.IH)
  next
    case (Some e)
    with Cons.prems kv s show ?thesis by auto
  qed
qed

text \<open>
  C1, as the code has it. The command has loaded its identity, manifest and
  secret file, \<^verbatim>\<open>Unlock\<close> has succeeded, the manifest has recipients and the
  stored values have been read. If \<^verbatim>\<open>Init\<close> then fails (minting or wrapping
  the new key), \<^verbatim>\<open>runRekey\<close> returns that error, wrapped, without calling
  \<^verbatim>\<open>Save\<close>: the disk is what it was. If \<^verbatim>\<open>Init\<close> succeeds and a
  \<^verbatim>\<open>SetSecret\<close> of the loop fails (re-sealing a value), \<^verbatim>\<open>runRekey\<close> returns
  that error, wrapped with the name of the value, again without calling
  \<^verbatim>\<open>Save\<close>: the disk is what it was.
\<close>

theorem runRekey_rotate_failure_not_saved:
  assumes "IdentityManager_Load E (identityFilePath E) w = Inr identity"
      and "ManifestStore_Load E w = Inr manifest"
      and "SecretsStore_Load E (secretFilePath E) w = Inr sf"
      and "Unlock P identity sf = (None, sf1)"
      and "GetPublicKeys manifest \<noteq> []"
      and "GetAllSecrets P sf1 = (Inr all, sf1a)"
  shows "(Init P (GetPublicKeys manifest) sf1a rnd = (Some e, sf2, r) \<longrightarrow>
            runRekey P E (Inr True) rnd w
              = (Some (ErrWrap ''failed to initialize new key: %w'' [] e), w))
       \<and> (Init P (GetPublicKeys manifest) sf1a rnd = (None, sf2, r)
            \<and> resealLoop P (mapEntries all) sf2 r = (Some e, sf3, r') \<longrightarrow>
            runRekey P E (Inr True) rnd w = (Some e, w)
            \<and> (\<exists>k e'. e = ErrWrap ''failed to re-encrypt %s: %w'' [VStr k] e'))"
proof (intro conjI impI)
  assume "Init P (GetPublicKeys manifest) sf1a rnd = (Some e, sf2, r)"
  then show "runRekey P E (Inr True) rnd w
              = (Some (ErrWrap ''failed to initialize new key: %w'' [] e), w)"
    using assms by (simp add: runRekey_def rotateBranch_def Let_def)
next
  assume h: "Init P (GetPublicKeys manifest) sf1a rnd = (None, sf2, r)
            \<and> resealLoop P (mapEntries all) sf2 r = (Some e, sf3, r')"
  then show "runRekey P E (Inr True) rnd w = (Some e, w)"
    using assms by (simp add: runRekey_def rotateBranch_def Let_def)
  show "\<exists>k e'. e = ErrWrap ''failed to re-encrypt %s: %w'' [VStr k] e'"
    using h resealLoop_error by blast
qed

lemma exDisk_load:
  "SecretsStore_Load exEnv (secretFilePath exEnv) exDisk = Inr exDoc"
  by (simp add: exEnv_def exDisk_def LoadSecretFile_def refExt_def refUnmarshalMap_def
      ensureSecretsMap_def)
     (simp add: exDoc_def SecretsKey_def)

lemma exDoc_unlock_alice:
  "Unlock refExt (Some (X25519Identity ''alice'')) exDoc = (None, exUnlocked)"
  by (simp add: Unlock_def exDoc_meta refExt_def refUnmarshalMetadata_def DecryptDEK_def
      refAgeDecrypt_def HasPrefix_def validateDEK_def dekSize_def exKey_length
      replaceDEK_def cloneBytes_def exUnlocked_def)
     (simp add: exDoc_def zeroBytes_None)

lemma ex_rotate_error:
  "fst (rotateBranch refExt [''age1bob'', ''bogus''] exUnlocked (replicate 32 (CHR ''j''))) =
   Some (ErrWrap ''failed to initialize new key: %w'' []
     (ErrWrap ''failed to encrypt for recipient %q: %w'' [VStr ''bogus'']
       (ErrWrap ''invalid public key: %w'' [] (ErrNew ''malformed recipient''))))"
  by code_simp

lemma exUnlocked_read:
  "GetAllSecrets refExt exUnlocked = (Inr [(''K'', ''v'')], exUnlocked)"
proof -
  have "fst (GetAllSecrets refExt exUnlocked) = Inr [(''K'', ''v'')]"
    by code_simp
  moreover have "snd (GetAllSecrets refExt exUnlocked) = exUnlocked"
    using GetAllSecrets_unfold [of exUnlocked refExt]
    by (simp add: exUnlocked_dek)
       (simp add: ensureSecretsMap_def exUnlocked_def exDoc_def SecretsKey_def)
  ultimately show ?thesis by (simp add: prod_eq_iff)
qed

lemma ex_init_bogus:
  "fst (Init refExt [''age1bob'', ''bogus''] exUnlocked (replicate 32 (CHR ''j''))) =
   Some (ErrWrap ''failed to encrypt for recipient %q: %w'' [VStr ''bogus'']
          (ErrWrap ''invalid public key: %w'' [] (ErrNew ''malformed recipient'')))"
  by code_simp

lemma ex_init_bob:
  "fst (Init refExt [''age1bob''] exUnlocked (replicate 32 (CHR ''j''))) = None"
  by code_simp

lemma ex_reseal_no_nonce:
  "fst (resealLoop refExt (mapEntries [(''K'', ''v'')])
          (fst (snd (Init refExt [''age1bob''] exUnlocked (replicate 32 (CHR ''j'')))))
          (snd (snd (Init refExt [''age1bob''] exUnlocked (replicate 32 (CHR ''j''))))))
   = Some (ErrWrap ''failed to re-encrypt %s: %w'' [VStr ''K''] (ErrNew ''unexpected EOF''))"
  by code_simp

theorem runRekey_rotate_failure_not_saved_witness:
  "IdentityManager_Load exEnv (identityFilePath exEnv) exDisk = Inr (Some (X25519Identity ''alice''))
   \<and> ManifestStore_Load exEnv exDisk = Inr exManifest
   \<and> SecretsStore_Load exEnv (secretFilePath exEnv) exDisk = Inr exDoc
   \<and> Unlock refExt (Some (X25519Identity ''alice'')) exDoc = (None, exUnlocked)
   \<and> GetPublicKeys exManifest = [''age1bob'', ''bogus'']
   \<and> GetAllSecrets refExt exUnlocked = (Inr [(''K'', ''v'')], exUnlocked)
   \<and> fst (Init refExt [''age1bob'', ''bogus''] exUnlocked (replicate 32 (CHR ''j''))) =
       Some (ErrWrap ''failed to encrypt for recipient %q: %w'' [VStr ''bogus'']
              (ErrWrap ''invalid public key: %w'' [] (ErrNew ''malformed recipient'')))
   \<and> runRekey refExt exEnv (Inr True) (replicate 32 (CHR ''j'')) exDisk =
       (Some (ErrWrap ''failed to initialize new key: %w'' []
         (ErrWrap ''failed to encrypt for recipient %q: %w'' [VStr ''bogus'']
           (ErrWrap ''invalid public key: %w'' [] (ErrNew ''malformed recipient'')))), exDisk)
   \<and> GetPublicKeys (exManifest\<lparr>AccessControl := [\<lparr>Name = ''bob'', PublicKey = ''age1bob''\<rparr>]\<rparr>)
       = [''age1bob'']
   \<and> fst (Init refExt [''age1bob''] exUnlocked (replicate 32 (CHR ''j''))) = None
   \<and> runRekey refExt
        (exEnv\<lparr>ManifestStore_Load :=
            (\<lambda>w. Inr (exManifest\<lparr>AccessControl := [\<lparr>Name = ''bob'', PublicKey = ''age1bob''\<rparr>]\<rparr>))\<rparr>)
        (Inr True) (replicate 32 (CHR ''j'')) exDisk =
       (Some (ErrWrap ''failed to re-encrypt %s: %w'' [VStr ''K''] (ErrNew ''unexpected EOF'')),
        exDisk)"
proof -
  let ?rnd = "replicate 32 (CHR ''j'')"
  let ?m2 = "exManifest\<lparr>AccessControl := [\<lparr>Name = ''bob'', PublicKey = ''age1bob''\<rparr>]\<rparr>"
  let ?E2 = "exEnv\<lparr>ManifestStore_Load := (\<lambda>w. Inr ?m2)\<rparr>"
  let ?I1 = "Init refExt [''age1bob'', ''bogus''] exUnlocked ?rnd"
  let ?I2 = "Init refExt [''age1bob''] exUnlocked ?rnd"
  let ?L = "resealLoop refExt (mapEntries [(''K'', ''v'')]) (fst (snd ?I2)) (snd (snd ?I2))"
  have i: "IdentityManager_Load exEnv (identityFilePath exEnv) exDisk
            = Inr (Some (X25519Identity ''alice''))"
    and m: "ManifestStore_Load exEnv exDisk = Inr exManifest"
    by (simp_all add: exEnv_def)
  have k: "GetPublicKeys exManifest = [''age1bob'', ''bogus'']"
    by (simp add: GetPublicKeys_def exManifest_def)
  have ne: "GetPublicKeys exManifest \<noteq> []"
    by (simp add: k)
  have i1: "Init refExt (GetPublicKeys exManifest) exUnlocked ?rnd
            = (Some (ErrWrap ''failed to encrypt for recipient %q: %w'' [VStr ''bogus'']
                      (ErrWrap ''invalid public key: %w'' [] (ErrNew ''malformed recipient''))),
               fst (snd ?I1), snd (snd ?I1))"
    using ex_init_bogus by (simp add: k prod_eq_iff)
  from runRekey_rotate_failure_not_saved
         [OF i m exDisk_load exDoc_unlock_alice ne exUnlocked_read] i1
  have r1: "runRekey refExt exEnv (Inr True) ?rnd exDisk =
       (Some (ErrWrap ''failed to initialize new key: %w'' []
         (ErrWrap ''failed to encrypt for recipient %q: %w'' [VStr ''bogus'']
           (ErrWrap ''invalid public key: %w'' [] (ErrNew ''malformed recipient'')))), exDisk)"
    by blast
  have i': "IdentityManager_Load ?E2 (identityFilePath ?E2) exDisk
            = Inr (Some (X25519Identity ''alice''))"
    and m': "ManifestStore_Load ?E2 exDisk = Inr ?m2"
    by (simp_all add: exEnv_def)
  have l': "SecretsStore_Load ?E2 (secretFilePath ?E2) exDisk = Inr exDoc"
    using exDisk_load by simp
  have k': "GetPublicKeys ?m2 = [''age1bob'']"
    by (simp add: GetPublicKeys_def)
  have ne': "GetPublicKeys ?m2 \<noteq> []"
    by (simp add: k')
  have i2: "Init refExt (GetPublicKeys ?m2) exUnlocked ?rnd = (None, fst (snd ?I2), snd (snd ?I2))"
    using ex_init_bob by (simp add: k' prod_eq_iff)
  have l2: "?L = (Some (ErrWrap ''failed to re-encrypt %s: %w'' [VStr ''K'']
                          (ErrNew ''unexpected EOF'')), fst (snd ?L), snd (snd ?L))"
    using ex_reseal_no_nonce by (simp add: prod_eq_iff)
  from runRekey_rotate_failure_not_saved
         [OF i' m' l' exDoc_unlock_alice ne' exUnlocked_read] i2 l2
  have r2: "runRekey refExt ?E2 (Inr True) ?rnd exDisk =
       (Some (ErrWrap ''failed to re-encrypt %s: %w'' [VStr ''K''] (ErrNew ''unexpected EOF'')),
        exDisk)"
    by blast
  from i m exDisk_load exDoc_unlock_alice k exUnlocked_read ex_init_bogus r1 k' ex_init_bob r2
  show ?thesis by simp
qed

theorem rotate_failure_changes_memory_counterexample:
  "IsUnlocked exUnlocked
   \<and> fst (rotateBranch refExt [''age1bob'', ''bogus''] exUnlocked (replicate 32 (CHR ''j''))) \<noteq> None
   \<and> dekBytes exUnlocked = replicate 32 (CHR ''k'')
   \<and> dekBytes (fst (snd (rotateBranch refExt [''age1bob'', ''bogus''] exUnlocked
          (replicate 32 (CHR ''j''))))) = replicate 32 (CHR ''j'')
   \<and> dekBytes (fst (snd (rotateBranch refExt [''age1bob'', ''bogus''] exUnlocked
          (replicate 32 (CHR ''j''))))) \<noteq> dekBytes exUnlocked
   \<and> RawData (fst (snd (rotateBranch refExt [''age1bob'', ''bogus''] exUnlocked
          (replicate 32 (CHR ''j''))))) = RawData exUnlocked
   \<and> fst (GetSecret refExt ''K'' exUnlocked) = Inr ''v''
   \<and> fst (GetSecret refExt ''K'' (fst (snd (rotateBranch refExt [''age1bob'', ''bogus''] exUnlocked
          (replicate 32 (CHR ''j'')))))) = Inl (ErrNew errDecryptValue)"
proof -
  have a: "IsUnlocked exUnlocked"
    by (simp add: IsUnlocked_def exUnlocked_dek)
  have b: "fst (rotateBranch refExt [''age1bob'', ''bogus''] exUnlocked (replicate 32 (CHR ''j'')))
            \<noteq> None"
    by (simp add: ex_rotate_error)
  have c: "dekBytes exUnlocked = replicate 32 (CHR ''k'')"
    by (simp add: exUnlocked_dek exKey_def)
  have d: "dekBytes (fst (snd (rotateBranch refExt [''age1bob'', ''bogus''] exUnlocked
          (replicate 32 (CHR ''j''))))) = replicate 32 (CHR ''j'')"
    by code_simp
  have e: "replicate 32 (CHR ''j'') \<noteq> replicate 32 (CHR ''k'')"
    by code_simp
  have f: "RawData (fst (snd (rotateBranch refExt [''age1bob'', ''bogus''] exUnlocked
          (replicate 32 (CHR ''j''))))) = RawData exUnlocked"
    by code_simp
  have g: "fst (GetSecret refExt ''K'' exUnlocked) = Inr ''v''"
    by code_simp
  have h: "fst (GetSecret refExt ''K'' (fst (snd (rotateBranch refExt [''age1bob'', ''bogus''] exUnlocked
          (replicate 32 (CHR ''j'')))))) = Inl (ErrNew errDecryptValue)"
    by code_simp
  from a b c d e f g h show ?thesis by simp
qed

text \<open>
  C6, at a failing input. Adding \<open>jane\<close> with the key \<open>age1aaa\<close> to a roster
  that has \<open>jane\<close> with the key \<open>age1zzz\<close> succeeds and leaves the new entry
  after the old one, although its key is the smaller: \<^verbatim>\<open>AddUser\<close> compares
  names only, so the list is not ordered by name and then public key. \<^verbatim>\<open>normalizeInPlace\<close>, which compares the public
  keys of equal names, puts the same two entries in that order.
\<close>

theorem AddUser_equal_names_not_ordered_by_key:
  "AddUser ''jane'' ''age1aaa''
      \<lparr>ProjectName = ''demo'',
       AccessControl = [\<lparr>Name = ''jane'', PublicKey = ''age1zzz''\<rparr>]\<rparr>
     = (None,
        \<lparr>ProjectName = ''demo'',
         AccessControl = [\<lparr>Name = ''jane'', PublicKey = ''age1zzz''\<rparr>,
                          \<lparr>Name = ''jane'', PublicKey = ''age1aaa''\<rparr>]\<rparr>)
   \<and> (''age1aaa'' :: string) < ''age1zzz''
   \<and> AccessControl (normalizeInPlace
        \<lparr>ProjectName = ''demo'',
         AccessControl = [\<lparr>Name = ''jane'', PublicKey = ''age1zzz''\<rparr>,
                          \<lparr>Name = ''jane'', PublicKey = ''age1aaa''\<rparr>]\<rparr>)
     = [\<lparr>Name = ''jane'', PublicKey = ''age1aaa''\<rparr>,
        \<lparr>Name = ''jane'', PublicKey = ''age1zzz''\<rparr>]"
  by code_simp

end
